theory Spec2Isabelle
  imports Complex_Main "HOL-Library.AList" "HOL-Library.Sublist"
begin

section \<open>Data model\<close>

text \<open>
  The application keeps one mutable aggregate \<open>state\<close> and one record \<open>sb\<close> of sync
  metadata (src/bloomora/app.js). Only the fragment of the aggregate that the session
  ledger, the progression engine and the sync reconciler read or write is modelled;
  rendering, toasts and audio are left out.

  JavaScript numbers are modelled as reals: the finite values, with exact arithmetic. The
  source computes in IEEE doubles, which are exact on the whole numbers below \<open>2^53\<close>, far
  above the seconds and milliseconds of a ledger. The aggregate of the model holds numbers
  only. \<open>NaN\<close> is carried where a number comes in from outside the aggregate: the
  duration handed to \<open>saveSession\<close> is a \<open>jsnum\<close>, a real or \<open>NaN\<close>. The infinities are
  outside the model: the callers of \<open>saveSession\<close> compute the duration from clock
  readings, or from input fields read with \<open>Number\<close> and passed through \<open>clamp\<close>, which
  maps an infinity to a bound and lets \<open>NaN\<close> through.

  Strings are lists of 8-bit characters. An absent or empty string property is \<open>''''\<close>
  (both are falsy in the source). The identifier of a session is the exception, because
  the source reads it through \<open>String\<close> as well: it is a string or absent (\<open>None\<close>), and
  \<open>String\<close> of an absent identifier is the text \<open>undefined\<close>.
\<close>

datatype jsnum = Val real | NaN

record session =
  sid :: "string option"
  clientId :: string
  startTs :: real
  endTs :: real
  durationSec :: real
  method_s :: string
  rewardMode :: string
  label :: string

record label_item =
  lid :: string
  lname :: string
  color :: string
  favorite :: bool
  createdTs :: real

record ambient =
  atype :: string
  volume :: real

record profile =
  name :: string
  weeklyGoalHours :: real
  theme :: string
  stopwatchCapOn :: bool
  stopwatchCapHours :: real
  sessionAmbient :: ambient

record ui =
  worldView :: string

record island =
  xpSec :: real

record garden =
  treeType :: string
  growthSec :: real
  harvestedOnThisTree :: real

record labels =
  items :: "label_item list"

record app_state =
  profile :: profile
  ui :: ui
  sessions :: "session list"
  island :: island
  garden :: garden
  fruitCollection :: "(string \<times> real) list"
  labels :: labels

text \<open>The sync metadata \<open>sb\<close>; \<open>signedIn\<close> stands for \<open>sb.ready && sb.client && sb.user\<close>.\<close>

record sync_meta =
  signedIn :: bool
  syncing :: bool
  lastSyncMs :: real
  forcePushOnce :: bool
  deletedLabelIds :: "string list"

text \<open>Requests issued to the remote row store, in the order they are sent.\<close>

datatype remote_call =
    SelectProfile
  | SelectLabels
  | SelectSessions
  | DeleteLabels "string list"
  | DeleteSession string
  | DeleteAllSessions
  | UpsertProfile
  | UpsertLabels "string list"
  | UpsertSessions "string list"

text \<open>
  The world a function of the source runs in: the aggregate, the sync metadata, what
  \<open>saveState()\<close> and \<open>sbSaveMeta()\<close> last handed to the durable store, the remote
  requests sent so far, and the pending debounce timer of \<open>queueSyncSoon\<close> (its delay in
  milliseconds).
\<close>

record world =
  state :: app_state
  sb :: sync_meta
  saved :: "app_state option"
  savedMeta :: "(real \<times> bool \<times> string list) option"
  calls :: "remote_call list"
  syncTimer :: "real option"

text \<open>
  What a call reads from outside: the clock (\<open>Date.now()\<close>, which is not advanced during
  one call), the current year, and the random and time part that the identifier templates
  over \<open>Math.random()\<close> and \<open>Date.now()\<close> produce, numbered by request.
\<close>

record env =
  now :: real
  year :: real
  fresh :: "nat \<Rightarrow> string"

definition uid :: "string \<Rightarrow> env \<Rightarrow> nat \<Rightarrow> string" where
  "uid pfx e i = pfx @ ''_'' @ fresh e i"

section \<open>Constants and helpers\<close>

definition LEVEL_SEC :: real where
  "LEVEL_SEC = 5 * 60 * 60"

definition TREE_STAGES :: "(string \<times> string \<times> real) list" where
  "TREE_STAGES =
     [(''seed'', ''Seed'', 0),
      (''sprout'', ''Sprout'', 10 * 60),
      (''plant'', ''Plant'', 30 * 60),
      (''sapling'', ''Sapling'', 60 * 60),
      (''tree'', ''Tree'', 2 * 60 * 60)]"

definition FRUIT_RATE_SEC :: real where
  "FRUIT_RATE_SEC = 30 * 60"

text \<open>\<open>a || b\<close> on numbers and on strings: zero and the empty string are falsy.\<close>

definition num_or :: "real \<Rightarrow> real \<Rightarrow> real" where
  "num_or a b = (if a \<noteq> 0 then a else b)"

definition str_or :: "string \<Rightarrow> string \<Rightarrow> string" where
  "str_or a b = (if a \<noteq> [] then a else b)"

definition clamp :: "real \<Rightarrow> real \<Rightarrow> real \<Rightarrow> real" where
  "clamp n a b = max a (min b n)"

definition clamp01 :: "real \<Rightarrow> real" where
  "clamp01 n = clamp n 0 1"

text \<open>
  \<open>Math.round\<close>, \<open>Math.max(a, x)\<close> and the comparisons \<open>x < b\<close> and \<open>x >= b\<close> on a number
  that may be \<open>NaN\<close>: the first two return \<open>NaN\<close> for \<open>NaN\<close>, the comparisons are false.
\<close>

fun js_round :: "jsnum \<Rightarrow> jsnum" where
  "js_round (Val x) = Val (of_int (round x))"
| "js_round NaN = NaN"

fun js_max :: "real \<Rightarrow> jsnum \<Rightarrow> jsnum" where
  "js_max a (Val x) = Val (max a x)"
| "js_max a NaN = NaN"

fun js_less :: "jsnum \<Rightarrow> real \<Rightarrow> bool" where
  "js_less (Val x) b = (x < b)"
| "js_less NaN b = False"

fun js_ge :: "jsnum \<Rightarrow> real \<Rightarrow> bool" where
  "js_ge (Val x) b = (b \<le> x)"
| "js_ge NaN b = False"

text \<open>
  A string property that may be absent, read as \<open>x || ''\<close> and as \<open>String(x)\<close>.
\<close>

definition opt_str :: "string option \<Rightarrow> string" where
  "opt_str x = (case x of None \<Rightarrow> [] | Some s \<Rightarrow> s)"

definition js_String :: "string option \<Rightarrow> string" where
  "js_String x = (case x of None \<Rightarrow> ''undefined'' | Some s \<Rightarrow> s)"

text \<open>
  \<open>String.prototype.trim\<close>: among the 8-bit characters the white space it strips is the
  six ASCII ones and the no-break space.
\<close>

definition is_space :: "char \<Rightarrow> bool" where
  "is_space c =
     (c \<in> set [CHR '' '', CHR 0x09, CHR 0x0A, CHR 0x0B, CHR 0x0C, CHR 0x0D, CHR 0xA0])"

definition trim :: "string \<Rightarrow> string" where
  "trim s = rev (dropWhile is_space (rev (dropWhile is_space s)))"

text \<open>\<open>Array.prototype.findIndex\<close>: \<open>None\<close> is the source's \<open>-1\<close>.\<close>

fun findIndex :: "('a \<Rightarrow> bool) \<Rightarrow> 'a list \<Rightarrow> nat option" where
  "findIndex P [] = None"
| "findIndex P (x # xs) =
     (if P x then Some 0 else map_option Suc (findIndex P xs))"

text \<open>Reading a property of a plain object of numbers: \<open>Number(o[k]) || 0\<close>.\<close>

definition prop_or0 :: "(string \<times> real) list \<Rightarrow> string \<Rightarrow> real" where
  "prop_or0 obj k = (case map_of obj k of None \<Rightarrow> 0 | Some v \<Rightarrow> v)"

definition normalizeRewardMode :: "string \<Rightarrow> string" where
  "normalizeRewardMode mode = (if mode = ''garden'' then ''garden'' else ''island'')"

section \<open>State container and sync scheduling\<close>

definition defaultState :: app_state where
  "defaultState =
     \<lparr> profile = \<lparr> name = ''Student'', weeklyGoalHours = 10, theme = ''midnight'',
                   stopwatchCapOn = True, stopwatchCapHours = 6,
                   sessionAmbient = \<lparr> atype = ''off'', volume = 0.4 \<rparr> \<rparr>,
       ui = \<lparr> worldView = ''island'' \<rparr>,
       sessions = [],
       island = \<lparr> xpSec = 0 \<rparr>,
       garden = \<lparr> treeType = ''Apple'', growthSec = 0, harvestedOnThisTree = 0 \<rparr>,
       fruitCollection =
         [(''Apple'', 0), (''Orange'', 0), (''Cherry'', 0), (''Mango'', 0), (''Peach'', 0)],
       labels = \<lparr> items = [] \<rparr> \<rparr>"

definition saveState :: "world \<Rightarrow> world" where
  "saveState w = w\<lparr>saved := Some (state w)\<rparr>"

definition sbSignedIn :: "world \<Rightarrow> bool" where
  "sbSignedIn w = signedIn (sb w)"

definition queueSyncSoon :: "real \<Rightarrow> world \<Rightarrow> world" where
  "queueSyncSoon ms w = (if \<not> sbSignedIn w then w else w\<lparr>syncTimer := Some ms\<rparr>)"

definition sbUpsertSoon :: "world \<Rightarrow> world" where
  "sbUpsertSoon w = queueSyncSoon 250 w"

definition sbDeleteSession :: "string \<Rightarrow> world \<Rightarrow> world" where
  "sbDeleteSession cid w =
     (if \<not> sbSignedIn w then w else w\<lparr>calls := calls w @ [DeleteSession cid]\<rparr>)"

definition sbDeleteAllSessions :: "world \<Rightarrow> world" where
  "sbDeleteAllSessions w =
     (if \<not> sbSignedIn w then w else w\<lparr>calls := calls w @ [DeleteAllSessions]\<rparr>)"

section \<open>Progression engine\<close>

definition treeMin :: real where
  "treeMin = (case find (\<lambda>s. fst s = ''tree'') TREE_STAGES of
                Some s \<Rightarrow> snd (snd s) | None \<Rightarrow> 0)"

definition computeFruitsReady :: "garden \<Rightarrow> real" where
  "computeFruitsReady g =
     (if growthSec g < treeMin then 0
      else let total = \<lfloor>(growthSec g - treeMin) / FRUIT_RATE_SEC\<rfloor>
           in max 0 (of_int total - num_or (harvestedOnThisTree g) 0))"

definition harvestFruits :: "world \<Rightarrow> world" where
  "harvestFruits w =
     (let st = state w; ready = computeFruitsReady (garden st) in
      if ready \<le> 0 then w
      else
        let type = treeType (garden st);
            fc = AList.update type (prop_or0 (fruitCollection st) type + ready)
                   (fruitCollection st);
            g = (garden st)\<lparr>harvestedOnThisTree :=
                   num_or (harvestedOnThisTree (garden st)) 0 + ready\<rparr>
        in saveState (w\<lparr>state := st\<lparr>fruitCollection := fc, garden := g\<rparr>\<rparr>))"

definition restartTree :: "string \<Rightarrow> world \<Rightarrow> world" where
  "restartTree newType w =
     (let st = state w;
          g = \<lparr> treeType = str_or newType (treeType (garden st)),
                growthSec = 0, harvestedOnThisTree = 0 \<rparr>
      in saveState (w\<lparr>state := st\<lparr>garden := g\<rparr>\<rparr>))"

section \<open>Session ledger\<close>

text \<open>
  The argument object of \<open>saveSession\<close>. The duration is a number or \<open>NaN\<close>. An absent
  \<open>rewardMode\<close> or \<open>label\<close> is the empty string, an absent \<open>startedAt\<close> or \<open>endedAt\<close> is
  \<open>None\<close>.
\<close>

record session_args =
  a_durationSec :: jsnum
  a_method :: string
  a_rewardMode :: string
  a_label :: string
  a_startedAt :: "real option"
  a_endedAt :: "real option"

definition opt_or :: "real option \<Rightarrow> real \<Rightarrow> real" where
  "opt_or a b = (case a of None \<Rightarrow> b | Some x \<Rightarrow> num_or x b)"

text \<open>
  What \<open>saveSession\<close> leaves behind. \<open>Numbers w\<close> is the world \<open>w\<close>. \<open>HoldsNaN\<close> is the
  outcome of a call that got past the gate with the duration \<open>NaN\<close>: the source then puts
  a session with \<open>durationSec\<close> \<open>NaN\<close> (and, without \<open>startedAt\<close>, \<open>startTs\<close> \<open>NaN\<close>) in
  front of the list, adds \<open>NaN\<close> to both counters, which makes them \<open>NaN\<close>, calls
  \<open>saveState\<close> and \<open>sbUpsertSoon\<close> and returns true. That aggregate does not hold
  numbers only and has no world in this model.
\<close>

datatype aggregate = Numbers world | HoldsNaN

definition saveSession :: "env \<Rightarrow> session_args \<Rightarrow> world \<Rightarrow> bool \<times> aggregate" where
  "saveSession e a w =
     (let dur = js_max 0 (js_round (a_durationSec a)) in
      if js_less dur 60 then (False, Numbers w)
      else case dur of
        NaN \<Rightarrow> (True, HoldsNaN)
      | Val d \<Rightarrow>
          let st = state w;
              endTs' = opt_or (a_endedAt a) (now e);
              startTs' = opt_or (a_startedAt a) (endTs' - d * 1000);
              s = \<lparr> sid = Some (''s_'' @ fresh e 0), clientId = ''s_'' @ fresh e 0,
                    startTs = startTs', endTs = endTs',
                    durationSec = d, method_s = a_method a,
                    rewardMode = normalizeRewardMode
                       (str_or (a_rewardMode a) (str_or (worldView (ui st)) ''island'')),
                    label = take 24 (trim (a_label a)) \<rparr>;
              st' = st\<lparr> sessions := s # sessions st,
                        island := (island st)\<lparr>xpSec := xpSec (island st) + d\<rparr>,
                        garden := (garden st)\<lparr>growthSec := growthSec (garden st) + d\<rparr> \<rparr>
          in (True, Numbers (sbUpsertSoon (saveState (w\<lparr>state := st'\<rparr>)))))"

text \<open>
  \<open>deleteSessionById\<close> looks for the first session \<open>s\<close> with \<open>String(s.id) === sessionId\<close>.
\<close>

definition deleteSessionById :: "string \<Rightarrow> world \<Rightarrow> bool \<times> world" where
  "deleteSessionById sessionId w =
     (if sessionId = [] then (False, w)
      else case findIndex (\<lambda>s. js_String (sid s) = sessionId) (sessions (state w)) of
        None \<Rightarrow> (False, w)
      | Some idx \<Rightarrow>
          let st = state w;
              removed = sessions st ! idx;
              rest = take idx (sessions st) @ drop (Suc idx) (sessions st);
              dur = num_or (durationSec removed) 0;
              st' = st\<lparr> sessions := rest,
                        island := (island st)\<lparr>xpSec :=
                                     max 0 (num_or (xpSec (island st)) 0 - dur)\<rparr>,
                        garden := (garden st)\<lparr>growthSec :=
                                     max 0 (num_or (growthSec (garden st)) 0 - dur)\<rparr> \<rparr>
          in (True, sbDeleteSession
                      (str_or (clientId removed) (str_or (opt_str (sid removed)) sessionId))
                      (saveState (w\<lparr>state := st'\<rparr>))))"

definition resetStats :: "world \<Rightarrow> world" where
  "resetStats w =
     (let st = state w;
          st' = st\<lparr> sessions := [],
                    island := (island st)\<lparr>xpSec := 0\<rparr>,
                    garden := (garden st)\<lparr>growthSec := 0, harvestedOnThisTree := 0\<rparr>,
                    fruitCollection :=
                      [(''Apple'', 0), (''Orange'', 0), (''Cherry'', 0),
                       (''Mango'', 0), (''Peach'', 0)] \<rparr>
      in sbUpsertSoon (sbDeleteAllSessions (saveState (w\<lparr>state := st'\<rparr>))))"

text \<open>A world at start-up: the default aggregate, signed out, nothing stored or sent.\<close>

definition world0 :: world where
  "world0 =
     \<lparr> state = defaultState,
       sb = \<lparr> signedIn = False, syncing = False, lastSyncMs = 0,
              forcePushOnce = False, deletedLabelIds = [] \<rparr>,
       saved = None, savedMeta = None, calls = [], syncTimer = None \<rparr>"

definition env0 :: env where
  "env0 = \<lparr> now = 1700000000000, year = 2023, fresh = (\<lambda>k. ''1f3a_1700000000000'') \<rparr>"

text \<open>A mature tree with exactly two fruit periods of growth and nothing harvested.\<close>

definition world_mature :: world where
  "world_mature =
     world0\<lparr>state := defaultState\<lparr>garden :=
        \<lparr> treeType = ''Apple'', growthSec = 2 * 60 * 60 + 2 * (30 * 60),
          harvestedOnThisTree = 0 \<rparr>\<rparr>\<rparr>"

definition args0 :: "real \<Rightarrow> session_args" where
  "args0 d =
     \<lparr> a_durationSec = Val d, a_method = ''stopwatch'', a_rewardMode = [],
       a_label = ''Maths'', a_startedAt = None, a_endedAt = None \<rparr>"

text \<open>
  What \<open>manualAddSession\<close> hands over when the hours field holds text that \<open>Number\<close> cannot
  read: \<open>clamp(NaN, 0, 23)\<close> is \<open>NaN\<close>, and so is the rounded sum of seconds.
\<close>

definition args_nan :: session_args where
  "args_nan =
     \<lparr> a_durationSec = NaN, a_method = ''manual'', a_rewardMode = ''island'',
       a_label = [], a_startedAt = None, a_endedAt = Some 1700000000000 \<rparr>"

subsection \<open>Sequences of ledger operations\<close>

datatype ledger_op =
    OpSave env session_args
  | OpDelete string
  | OpReset

fun apply_op :: "ledger_op \<Rightarrow> world \<Rightarrow> aggregate" where
  "apply_op (OpSave e a) w = snd (saveSession e a w)"
| "apply_op (OpDelete i) w = Numbers (snd (deleteSessionById i w))"
| "apply_op OpReset w = Numbers (resetStats w)"

text \<open>
  The worlds after each operation of a sequence, in order. The list ends where a save
  leaves \<open>NaN\<close> in the aggregate; \<open>number_op\<close> holds of every operation but a save with
  the duration \<open>NaN\<close>.
\<close>

fun trace :: "ledger_op list \<Rightarrow> world \<Rightarrow> world list" where
  "trace [] w = []"
| "trace (x # xs) w =
     (case apply_op x w of
        Numbers w' \<Rightarrow> w' # trace xs w'
      | HoldsNaN \<Rightarrow> [])"

fun number_op :: "ledger_op \<Rightarrow> bool" where
  "number_op (OpSave e a) = (a_durationSec a \<noteq> NaN)"
| "number_op (OpDelete i) = True"
| "number_op OpReset = True"

text \<open>Concrete worlds and operation sequences used to exercise the ledger.\<close>

definition world1 :: world where
  "world1 = hd (trace [OpSave env0 (args0 1500)] world0)"

text \<open>
  A signed-in world whose one session has no \<open>id\<close>, as the sessions that
  \<open>ensureClientIds\<close> provides for: it gives them a \<open>clientId\<close> and no \<open>id\<close>.
\<close>

definition sess_noid :: session where
  "sess_noid = \<lparr> sid = None, clientId = ''s_77aa_1690000000000'', startTs = 1690000000000,
      endTs = 1690001500000, durationSec = 1500, method_s = ''stopwatch'',
      rewardMode = ''island'', label = [] \<rparr>"

definition world_noid :: world where
  "world_noid =
     world0\<lparr> state := defaultState\<lparr> sessions := [sess_noid],
                  island := \<lparr> xpSec = 1500 \<rparr>,
                  garden := (garden defaultState)\<lparr>growthSec := 1500\<rparr> \<rparr>,
             sb := (sb world0)\<lparr>signedIn := True\<rparr> \<rparr>"

definition ops0 :: "ledger_op list" where
  "ops0 = [OpSave env0 (args0 1500), OpSave env0 (args0 30),
           OpDelete ''s_1f3a_1700000000000'', OpSave env0 (args0 90), OpReset]"

section \<open>Sync reconciler\<close>

text \<open>
  Rows of the remote store, typed by the schema that comes with the repository: a nullable
  column is an option (\<open>None\<close> is \<open>null\<close> or an absent property, which the source treats
  alike), a timestamp column holds what \<open>Date.parse\<close> makes of it in milliseconds.
\<close>

record profile_row =
  display_name :: "string option"
  weekly_goal_hours :: "real option"
  row_theme :: "string option"
  stopwatch_cap_on :: "bool option"
  stopwatch_cap_hours :: "real option"
  session_ambient_type :: "string option"
  session_ambient_volume :: "real option"
  island_xp_sec :: "real option"
  garden_growth_sec :: "real option"
  garden_tree_type :: "string option"
  garden_harvested_on_tree :: "real option"
  fruit_collection :: "(string \<times> real) list option"

record label_row =
  local_id :: "string option"
  row_id :: string
  row_name :: string
  row_color :: string
  row_favorite :: "bool option"
  created_ts :: "real option"

record session_row =
  client_id :: string
  started_at :: "real option"
  ended_at :: "real option"
  duration_sec :: real
  label_name :: "string option"
  source :: "string option"
  reward_mode :: "string option"

text \<open>An answer of the remote store: \<open>{error}\<close> or \<open>{data}\<close>.\<close>

datatype 'a response = Failed | Data 'a

text \<open>What the remote store answers during one reconciliation pass.\<close>

record remote =
  delRes :: bool
  profRes :: "profile_row option response"
  lblRes :: "label_row list response"
  sesRes :: "session_row list response"

text \<open>\<open>a ?? b\<close> where \<open>b\<close> is a local number, which is never null.\<close>

definition nullish_or :: "'a option \<Rightarrow> 'a \<Rightarrow> 'a" where
  "nullish_or a b = (case a of None \<Rightarrow> b | Some x \<Rightarrow> x)"

text \<open>
  A JavaScript \<open>Map\<close> keeps its keys in order of first insertion; \<open>set\<close> on a key that is
  present replaces the value in place. \<open>AList.update\<close> does the same on an association
  list. \<open>spread a b\<close> is the object \<open>{...a, ...b}\<close>.
\<close>

definition map_from :: "('k \<times> 'v) list \<Rightarrow> ('k \<times> 'v) list" where
  "map_from entries = fold (\<lambda>(k, v). AList.update k v) entries []"

definition spread :: "('k \<times> 'v) list \<Rightarrow> ('k \<times> 'v) list \<Rightarrow> ('k \<times> 'v) list" where
  "spread a b = fold (\<lambda>(k, v). AList.update k v) b a"

definition sbSaveMeta :: "world \<Rightarrow> world" where
  "sbSaveMeta w = w\<lparr>savedMeta := Some (lastSyncMs (sb w), forcePushOnce (sb w),
                                          deletedLabelIds (sb w))\<rparr>"

fun ensureSessionIds :: "env \<Rightarrow> nat \<Rightarrow> session list \<Rightarrow> session list" where
  "ensureSessionIds e i [] = []"
| "ensureSessionIds e i (s # ss) =
     (let s1 = (if clientId s = [] then s\<lparr>clientId := opt_str (sid s)\<rparr> else s);
          s2 = (if clientId s1 = [] then s1\<lparr>clientId := ''s_'' @ fresh e i\<rparr> else s1)
      in s2 # ensureSessionIds e (Suc i) ss)"

fun ensureLabelIds :: "env \<Rightarrow> nat \<Rightarrow> label_item list \<Rightarrow> label_item list" where
  "ensureLabelIds e i [] = []"
| "ensureLabelIds e i (l # ls) =
     (if lid l = [] then l\<lparr>lid := uid ''lbl'' e i\<rparr> else l) # ensureLabelIds e (Suc i) ls"

definition ensureClientIds :: "env \<Rightarrow> world \<Rightarrow> world" where
  "ensureClientIds e w =
     (let st = state w in
      w\<lparr>state := st\<lparr> sessions := ensureSessionIds e 0 (sessions st),
                      labels := (labels st)\<lparr>items :=
                         ensureLabelIds e (length (sessions st)) (items (labels st))\<rparr> \<rparr>\<rparr>)"

definition rowToLocalSession :: "env \<Rightarrow> app_state \<Rightarrow> session_row \<Rightarrow> session" where
  "rowToLocalSession e st r =
     (let startTs0 = started_at r; endTs0 = ended_at r in
      \<lparr> sid = Some (client_id r),
        clientId = client_id r,
        startTs = opt_or startTs0
                    (case endTs0 of
                       Some t \<Rightarrow> if t \<noteq> 0 then t - num_or (duration_sec r) 0 * 1000
                                 else now e
                     | None \<Rightarrow> now e),
        endTs = opt_or endTs0
                  (case startTs0 of
                     Some t \<Rightarrow> if t \<noteq> 0 then t + num_or (duration_sec r) 0 * 1000
                               else now e
                   | None \<Rightarrow> now e),
        durationSec = num_or (duration_sec r) 0,
        method_s = str_or (opt_str (source r)) ''manual'',
        rewardMode = str_or (opt_str (reward_mode r))
                       (str_or (worldView (ui st)) ''island''),
        label = str_or (opt_str (label_name r)) [] \<rparr>)"

definition rowToLocalLabel :: "env \<Rightarrow> label_row \<Rightarrow> label_item" where
  "rowToLocalLabel e r =
     \<lparr> lid = str_or (opt_str (local_id r)) (row_id r),
       lname = str_or (row_name r) [],
       color = str_or (row_color r) ''#a855f7'',
       favorite = (row_favorite r = Some True),
       createdTs = (case created_ts r of Some t \<Rightarrow> t | None \<Rightarrow> now e) \<rparr>"

definition applyProfileRow :: "profile_row \<Rightarrow> app_state \<Rightarrow> app_state" where
  "applyProfileRow r st =
     (let p = profile st; g = garden st in
      st\<lparr> profile :=
            \<lparr> name = str_or (opt_str (display_name r)) (str_or (name p) ''Student''),
              weeklyGoalHours = nullish_or (weekly_goal_hours r) (weeklyGoalHours p),
              theme = str_or (opt_str (row_theme r)) (str_or (theme p) ''midnight''),
              stopwatchCapOn = (stopwatch_cap_on r \<noteq> Some False),
              stopwatchCapHours =
                clamp (nullish_or (stopwatch_cap_hours r) (stopwatchCapHours p)) 1 24,
              sessionAmbient =
                \<lparr> atype = str_or (opt_str (session_ambient_type r))
                            (str_or (atype (sessionAmbient p)) ''off''),
                  volume = clamp01 (nullish_or (session_ambient_volume r)
                                      (volume (sessionAmbient p))) \<rparr> \<rparr>,
          island := (island st)\<lparr>xpSec := nullish_or (island_xp_sec r) (xpSec (island st))\<rparr>,
          garden :=
            \<lparr> treeType = str_or (opt_str (garden_tree_type r))
                           (str_or (treeType g) ''Apple''),
              growthSec = nullish_or (garden_growth_sec r) (growthSec g),
              harvestedOnThisTree =
                nullish_or (garden_harvested_on_tree r) (harvestedOnThisTree g) \<rparr>,
          fruitCollection :=
            (case fruit_collection r of
               None \<Rightarrow> fruitCollection st
             | Some fc \<Rightarrow> spread (fruitCollection st) fc) \<rparr>)"

definition sbDeleteLabelsNow :: "remote \<Rightarrow> string list \<Rightarrow> world \<Rightarrow> bool \<times> world" where
  "sbDeleteLabelsNow r localIds w =
     (if \<not> sbSignedIn w then (False, w)
      else let ids = filter (\<lambda>i. i \<noteq> []) localIds in
        if ids = [] then (True, w)
        else (delRes r, w\<lparr>calls := calls w @ [DeleteLabels ids]\<rparr>))"

definition flushTombstones :: "remote \<Rightarrow> world \<Rightarrow> world" where
  "flushTombstones r w =
     (if deletedLabelIds (sb w) = [] then w
      else case sbDeleteLabelsNow r (deletedLabelIds (sb w)) w of
        (ok, w') \<Rightarrow>
          if ok then sbSaveMeta (w'\<lparr>sb := (sb w')\<lparr>deletedLabelIds := []\<rparr>\<rparr>) else w')"

definition pullProfile :: "remote \<Rightarrow> world \<Rightarrow> world" where
  "pullProfile r w =
     (let w' = w\<lparr>calls := calls w @ [SelectProfile]\<rparr> in
      case profRes r of
        Data (Some row) \<Rightarrow> w'\<lparr>state := applyProfileRow row (state w')\<rparr>
      | _ \<Rightarrow> w')"

definition mergeLabels ::
  "string list \<Rightarrow> label_item list \<Rightarrow> label_item list \<Rightarrow> label_item list" where
  "mergeLabels deleted local remoteAll =
     (let remoteLabels = filter (\<lambda>l. lid l \<notin> set deleted) remoteAll;
          byId = map_from (map (\<lambda>l. (lid l, l)) local);
          byId' = fold (\<lambda>rl. AList.update (lid rl) rl) remoteLabels byId
      in map snd byId')"

definition pullLabels :: "env \<Rightarrow> remote \<Rightarrow> world \<Rightarrow> world" where
  "pullLabels e r w =
     (let w' = w\<lparr>calls := calls w @ [SelectLabels]\<rparr> in
      case lblRes r of
        Data rows \<Rightarrow>
          w'\<lparr>state := (state w')\<lparr>labels := (labels (state w'))\<lparr>items :=
                mergeLabels (deletedLabelIds (sb w')) (items (labels (state w')))
                  (map (rowToLocalLabel e) rows)\<rparr>\<rparr>\<rparr>
      | Failed \<Rightarrow> w')"

text \<open>The key of a session in the merge and in a pushed row: \<open>String(s.clientId || s.id)\<close>.\<close>

definition session_key :: "session \<Rightarrow> string" where
  "session_key s = (if clientId s \<noteq> [] then clientId s else js_String (sid s))"

definition mergeSessions :: "session list \<Rightarrow> session list \<Rightarrow> session list" where
  "mergeSessions local remoteSessions =
     (let byClient = map_from (map (\<lambda>s. (session_key s, s)) local);
          byClient' = fold (\<lambda>rs m. if session_key rs \<in> fst ` set m then m
                                    else AList.update (session_key rs) rs m)
                        remoteSessions byClient
      in sort_key (\<lambda>s. - num_or (endTs s) 0) (map snd byClient'))"

definition pullSessions :: "env \<Rightarrow> remote \<Rightarrow> world \<Rightarrow> world" where
  "pullSessions e r w =
     (let w' = w\<lparr>calls := calls w @ [SelectSessions]\<rparr> in
      case sesRes r of
        Data rows \<Rightarrow>
          w'\<lparr>state := (state w')\<lparr>sessions :=
                mergeSessions (sessions (state w'))
                  (map (rowToLocalSession e (state w')) rows)\<rparr>\<rparr>
      | Failed \<Rightarrow> w')"

definition pushAll :: "world \<Rightarrow> world" where
  "pushAll w =
     (let st = state w;
          c1 = calls w @ [UpsertProfile];
          c2 = (if items (labels st) = [] then c1
                else c1 @ [UpsertLabels (map lid (items (labels st)))]);
          c3 = (if sessions st = [] then c2
                else c2 @ [UpsertSessions (map session_key (sessions st))])
      in w\<lparr>calls := c3\<rparr>)"

text \<open>
  One reconciliation pass. The pass is modelled as one step: local edits that the user
  makes while a remote call is pending are not interleaved, and the clock is read once.
\<close>

definition fullSync :: "env \<Rightarrow> remote \<Rightarrow> world \<Rightarrow> world" where
  "fullSync e r w =
     (if \<not> sbSignedIn w \<or> syncing (sb w) then w
      else
        let w1 = w\<lparr>sb := (sb w)\<lparr>syncing := True\<rparr>\<rparr>;
            w2 = ensureClientIds e w1;
            w3 = flushTombstones r w2;
            skipPull = forcePushOnce (sb w3);
            w4 = (if \<not> skipPull then pullSessions e r (pullLabels e r (pullProfile r w3))
                  else w3);
            w5 = (if forcePushOnce (sb w4)
                  then sbSaveMeta (w4\<lparr>sb := (sb w4)\<lparr>forcePushOnce := False\<rparr>\<rparr>)
                  else w4);
            w6 = pushAll w5;
            w7 = sbSaveMeta (w6\<lparr>sb := (sb w6)\<lparr>lastSyncMs := now e\<rparr>\<rparr>);
            w8 = saveState w7
        in w8\<lparr>sb := (sb w8)\<lparr>syncing := False\<rparr>\<rparr>)"


definition sbDeleteConfirmed :: "string \<Rightarrow> world \<Rightarrow> world" where
  "sbDeleteConfirmed localId w =
     sbSaveMeta (w\<lparr>sb := (sb w)\<lparr>deletedLabelIds :=
        filter (\<lambda>x. x \<noteq> localId) (deletedLabelIds (sb w))\<rparr>\<rparr>)"


text \<open>The requests of the pull phase.\<close>

definition is_select :: "remote_call \<Rightarrow> bool" where
  "is_select c = (c = SelectProfile \<or> c = SelectLabels \<or> c = SelectSessions)"

text \<open>Concrete states, rows and answers of the remote store used to exercise the reconciler.\<close>

definition st_alice :: app_state where
  "st_alice = defaultState\<lparr>profile := (profile defaultState)\<lparr>name := ''Alice''\<rparr>\<rparr>"

definition row_none :: profile_row where
  "row_none = \<lparr> display_name = None, weekly_goal_hours = None, row_theme = None,
       stopwatch_cap_on = None, stopwatch_cap_hours = None, session_ambient_type = None,
       session_ambient_volume = None, island_xp_sec = None, garden_growth_sec = None,
       garden_tree_type = None, garden_harvested_on_tree = None, fruit_collection = None \<rparr>"

definition row_blank :: profile_row where
  "row_blank = row_none\<lparr> display_name := Some [], stopwatch_cap_hours := Some 0 \<rparr>"

definition row_full :: profile_row where
  "row_full = \<lparr> display_name = Some ''Bob'', weekly_goal_hours = Some 0, row_theme = Some ''ocean'',
       stopwatch_cap_on = Some False, stopwatch_cap_hours = Some 30, session_ambient_type = Some ''rain'',
       session_ambient_volume = Some 2, island_xp_sec = Some 7200, garden_growth_sec = Some 3600,
       garden_tree_type = Some ''Mango'', garden_harvested_on_tree = Some 1,
       fruit_collection = Some [(''Apple'', 4), (''Kiwi'', 1)] \<rparr>"

text \<open>The loop of the session merge: a remote session is stored only under a key that is absent.\<close>

definition add_absent :: "('a \<Rightarrow> 'k) \<Rightarrow> 'a list \<Rightarrow> ('k \<times> 'a) list \<Rightarrow> ('k \<times> 'a) list" where
  "add_absent key rs m0 = fold (\<lambda>rs m. if key rs \<in> fst ` set m then m else AList.update (key rs) rs m) rs m0"

definition sess_X :: session where
  "sess_X = \<lparr> sid = Some ''X'', clientId = ''X'', startTs = 3500000, endTs = 5000000,
      durationSec = 1500, method_s = ''stopwatch'', rewardMode = ''island'', label = ''Maths'' \<rparr>"

definition sess_W :: session where
  "sess_W = \<lparr> sid = Some ''W'', clientId = ''W'', startTs = 910000, endTs = 1000000,
      durationSec = 90, method_s = ''timer'', rewardMode = ''garden'', label = [] \<rparr>"

definition label_a :: label_item where
  "label_a = \<lparr> lid = ''lbl_a'', lname = ''Maths'', color = ''#a855f7'', favorite = False,
      createdTs = 1000 \<rparr>"

definition world_sync :: world where
  "world_sync =
     world0\<lparr> state := st_alice\<lparr> sessions := [sess_W, sess_X],
                                  labels := \<lparr> items = [label_a] \<rparr> \<rparr>,
             sb := \<lparr> signedIn = True, syncing = False, lastSyncMs = 0,
                     forcePushOnce = False, deletedLabelIds = [''lbl_del''] \<rparr> \<rparr>"

definition world_forced :: world where
  "world_forced = world_sync\<lparr>sb := (sb world_sync)\<lparr>forcePushOnce := True\<rparr>\<rparr>"



definition row_X :: session_row where
  "row_X = \<lparr> client_id = ''X'', started_at = None, ended_at = Some 9000000,
      duration_sec = 5, label_name = Some ''Other'', source = None,
      reward_mode = Some ''garden'' \<rparr>"

definition row_Y :: session_row where
  "row_Y = \<lparr> client_id = ''Y'', started_at = None, ended_at = Some 3000000,
      duration_sec = 5, label_name = None, source = None, reward_mode = None \<rparr>"

definition lrow_del :: label_row where
  "lrow_del = \<lparr> local_id = Some ''lbl_del'', row_id = ''u1'', row_name = ''Old'',
      row_color = ''#111111'', row_favorite = None, created_ts = Some 2000 \<rparr>"

definition lrow_a :: label_row where
  "lrow_a = \<lparr> local_id = Some ''lbl_a'', row_id = ''u2'', row_name = ''Physics'',
      row_color = ''#222222'', row_favorite = Some True, created_ts = Some 3000 \<rparr>"

definition lrow_b :: label_row where
  "lrow_b = \<lparr> local_id = Some ''lbl_b'', row_id = ''u3'', row_name = ''Art'',
      row_color = [], row_favorite = Some False, created_ts = None \<rparr>"

definition remote1 :: remote where
  "remote1 = \<lparr> delRes = False, profRes = Data (Some row_full),
      lblRes = Data [lrow_del, lrow_a, lrow_b], sesRes = Data [row_X, row_Y] \<rparr>"

section \<open>Backup import\<close>

text \<open>
  The backup document, typed: every section and every field that may be missing is an
  option, the legacy spellings of the progression fields are fields of their own, and the
  entries of the \<open>sessions\<close> array are sessions. \<open>NotJson\<close> is a file that does not parse,
  \<open>NotBackup\<close> one that parses but is not an object with a \<open>sessions\<close> array.
\<close>

record profile_part =
  pp_name :: "string option"
  pp_weeklyGoalHours :: "real option"
  pp_theme :: "string option"
  pp_stopwatchCapOn :: "bool option"
  pp_stopwatchCapHours :: "real option"
  pp_sessionAmbient :: "ambient option"
  pp_island_xp_sec :: "real option"
  pp_islandXpSec :: "real option"
  pp_garden_growth_sec :: "real option"
  pp_gardenGrowthSec :: "real option"
  pp_garden_tree_type :: "string option"
  pp_garden_harvested_on_tree :: "real option"

record island_part =
  ip_xpSec :: "real option"
  ip_xp_sec :: "real option"

record garden_part =
  gp_treeType :: "string option"
  gp_tree_type :: "string option"
  gp_growthSec :: "real option"
  gp_growth_sec :: "real option"
  gp_harvestedOnThisTree :: "real option"
  gp_harvested_on_tree :: "real option"

record backup =
  b_profile :: "profile_part option"
  b_ui :: "ui option"
  b_sessions :: "session list"
  b_island :: "island_part option"
  b_garden :: "garden_part option"
  b_fruitCollection :: "(string \<times> real) list option"
  b_fruit_collection :: "(string \<times> real) list option"
  b_labels :: "labels option"
  b_island_xp_sec :: "real option"
  b_garden_growth_sec :: "real option"
  b_garden_tree_type :: "string option"
  b_garden_harvested_on_tree :: "real option"

datatype file_content = NotJson | NotBackup | Backup backup

text \<open>\<open>a ?? b\<close> where both sides may be null.\<close>

definition orElse :: "'a option \<Rightarrow> 'a option \<Rightarrow> 'a option" where
  "orElse a b = (case a of None \<Rightarrow> b | Some x \<Rightarrow> Some x)"

text \<open>\<open>o?.f\<close> and \<open>o && o.f\<close> on a section that may be missing.\<close>

definition sect :: "'s option \<Rightarrow> ('s \<Rightarrow> 'a option) \<Rightarrow> 'a option" where
  "sect s f = (case s of None \<Rightarrow> None | Some x \<Rightarrow> f x)"

definition importStateFromFile :: "file_content option \<Rightarrow> world \<Rightarrow> world" where
  "importStateFromFile file w =
     (case file of
        None \<Rightarrow> w
      | Some NotJson \<Rightarrow> w
      | Some NotBackup \<Rightarrow> w
      | Some (Backup incoming) \<Rightarrow>
          let d = defaultState;
              pr = b_profile incoming;
              legacyIslandXpSec =
                orElse (sect (b_island incoming) (\<lambda>i. orElse (ip_xpSec i) (ip_xp_sec i)))
                  (orElse (b_island_xp_sec incoming)
                     (orElse (sect pr pp_island_xp_sec) (sect pr pp_islandXpSec)));
              legacyGardenGrowthSec =
                orElse (sect (b_garden incoming) (\<lambda>g. orElse (gp_growthSec g) (gp_growth_sec g)))
                  (orElse (b_garden_growth_sec incoming)
                     (orElse (sect pr pp_garden_growth_sec) (sect pr pp_gardenGrowthSec)));
              legacyGardenTreeType =
                orElse (sect (b_garden incoming) (\<lambda>g. orElse (gp_treeType g) (gp_tree_type g)))
                  (orElse (b_garden_tree_type incoming) (sect pr pp_garden_tree_type));
              legacyGardenHarvested =
                orElse (sect (b_garden incoming)
                          (\<lambda>g. orElse (gp_harvestedOnThisTree g) (gp_harvested_on_tree g)))
                  (orElse (b_garden_harvested_on_tree incoming)
                     (sect pr pp_garden_harvested_on_tree));
              st' =
                \<lparr> profile =
                    \<lparr> name = nullish_or (sect pr pp_name) (name (profile d)),
                      weeklyGoalHours =
                        nullish_or (sect pr pp_weeklyGoalHours) (weeklyGoalHours (profile d)),
                      theme = nullish_or (sect pr pp_theme) (theme (profile d)),
                      stopwatchCapOn =
                        nullish_or (sect pr pp_stopwatchCapOn) (stopwatchCapOn (profile d)),
                      stopwatchCapHours =
                        nullish_or (sect pr pp_stopwatchCapHours) (stopwatchCapHours (profile d)),
                      sessionAmbient =
                        nullish_or (sect pr pp_sessionAmbient) (sessionAmbient (profile d)) \<rparr>,
                  ui = nullish_or (b_ui incoming) (ui d),
                  sessions = b_sessions incoming,
                  island = \<lparr> xpSec = nullish_or legacyIslandXpSec (xpSec (island d)) \<rparr>,
                  garden =
                    \<lparr> treeType =
                        (if opt_str legacyGardenTreeType \<noteq> [] then opt_str legacyGardenTreeType
                         else nullish_or (sect (b_garden incoming) gp_treeType)
                                (treeType (garden d))),
                      growthSec = nullish_or legacyGardenGrowthSec (growthSec (garden d)),
                      harvestedOnThisTree =
                        nullish_or legacyGardenHarvested (harvestedOnThisTree (garden d)) \<rparr>,
                  fruitCollection =
                    spread (spread (fruitCollection d)
                              (nullish_or (b_fruitCollection incoming) []))
                      (nullish_or (b_fruit_collection incoming) []),
                  labels = nullish_or (b_labels incoming) (labels d) \<rparr>;
              w1 = saveState (w\<lparr>state := st'\<rparr>)
          in if sbSignedIn w1
             then queueSyncSoon 50 (sbSaveMeta (w1\<lparr>sb := (sb w1)\<lparr>forcePushOnce := True\<rparr>\<rparr>))
             else w1)"

text \<open>The duration of a stored session is a whole number of at least 60 seconds.\<close>

definition valid_duration :: "session \<Rightarrow> bool" where
  "valid_duration s = (of_int \<lfloor>durationSec s\<rfloor> = durationSec s \<and> 60 \<le> durationSec s)"

definition backup_short :: backup where
  "backup_short =
     \<lparr> b_profile = None, b_ui = None,
       b_sessions = [\<lparr> sid = Some ''Z'', clientId = ''Z'', startTs = 0, endTs = 5000,
                       durationSec = 5, method_s = ''manual'', rewardMode = ''island'',
                       label = [] \<rparr>],
       b_island = None, b_garden = None, b_fruitCollection = None,
       b_fruit_collection = None, b_labels = None, b_island_xp_sec = None,
       b_garden_growth_sec = None, b_garden_tree_type = None,
       b_garden_harvested_on_tree = None \<rparr>"

definition row_V :: session_row where
  "row_V = \<lparr> client_id = ''V'', started_at = Some 7000000, ended_at = None,
      duration_sec = 120, label_name = None, source = Some ''pomodoro'', reward_mode = None \<rparr>"

definition remote2 :: remote where
  "remote2 = remote1\<lparr>sesRes := Data [row_V]\<rparr>"

section \<open>Loading the stored state\<close>

text \<open>
  \<open>loadState\<close> reads the whole aggregate, so its model carries the sections that the
  ledger and the reconciler never touch: tasks, audio, pomodoro settings, habits, the label
  view and the version. \<open>json\<close> stands for a JSON payload that \<open>loadState\<close> passes
  through unread. A task's creation time is a number or \<open>NaN\<close> (\<open>None\<close>).
\<close>

typedecl json

record task =
  task_id :: string
  task_text :: string
  task_done :: bool
  task_createdTs :: "real option"

record amb_sound =
  snd_on :: bool
  snd_vol :: real

record ambient_sounds =
  fire :: amb_sound
  wind :: amb_sound
  sea :: amb_sound
  nature :: amb_sound

record audio =
  master :: real
  ambient_s :: ambient_sounds
  lofiVideoId :: string
  lofiEmbedUrl :: string
  videoBgOn :: bool
  videoBgOpacity :: real
  videoOverlayOpacity :: real
  ytVolume :: real
  isPlaying :: bool

record pomodoro =
  focusMin :: real
  breakMin :: real
  longBreakMin :: real
  longEvery :: real

record habits =
  habit_items :: "json list"
  completions :: "(string \<times> json) list"

record full_state =
  core :: app_state
  version :: real
  lastYearViewed :: real
  defaultRewardMode :: "string option"
  tasks :: "task list"
  audio :: audio
  pomodoro :: pomodoro
  labelsView :: string
  labelsSort :: string
  habits :: habits

text \<open>
  The parsed blob, typed: a section or a field that is missing is \<open>None\<close>, one that is
  present has the type the application writes. Task entries are the exception, since
  \<open>loadState\<close> coerces their fields: an entry is either not an object or an object whose
  fields are given by what the source's coercions make of them. For \<open>id\<close> and \<open>text\<close> that
  is whether the value is truthy and what \<open>String\<close> returns for it, for \<open>createdTs\<close>
  whether it is truthy and what \<open>Number\<close> returns (\<open>None\<close> for \<open>NaN\<close>), for \<open>done\<close> whether
  it is truthy. So the string \<open>"abc"\<close> is \<open>(True, ''abc'')\<close>, a missing field is falsy, and
  the empty array, which is truthy and which \<open>String\<close> turns into the empty string, is
  \<open>(True, '''')\<close>. A blob that parses to a number, a string, a boolean or an array has
  none of the sections (its indices apart) and is the empty blob here.
\<close>

record raw_str =
  rs_truthy :: bool
  rs_string :: string

record raw_num =
  rn_truthy :: bool
  rn_number :: "real option"

record raw_task =
  r_id :: raw_str
  r_text :: raw_str
  r_done :: bool
  r_createdTs :: raw_num

datatype task_entry = NotObject | TaskObject raw_task

record profile_blob =
  pb_name :: "string option"
  pb_weeklyGoalHours :: "real option"
  pb_theme :: "string option"
  pb_lastYearViewed :: "real option"
  pb_stopwatchCapOn :: "bool option"
  pb_stopwatchCapHours :: "real option"
  pb_sessionAmbient :: "ambient option"
  pb_defaultRewardMode :: "string option"
  pb_backgroundCustomData :: "string option"

record ui_blob =
  ub_worldView :: "string option"

record amb_blob =
  ab_on :: "bool option"
  ab_vol :: "real option"

record ambient_blob =
  fire_b :: "amb_blob option"
  wind_b :: "amb_blob option"
  sea_b :: "amb_blob option"
  nature_b :: "amb_blob option"

record audio_blob =
  master_b :: "real option"
  ambient_b :: "ambient_blob option"
  lofiVideoId_b :: "string option"
  lofiEmbedUrl_b :: "string option"
  videoBgOn_b :: "bool option"
  videoBgOpacity_b :: "real option"
  videoOverlayOpacity_b :: "real option"
  ytVolume_b :: "real option"
  isPlaying_b :: "bool option"

record pomodoro_blob =
  focusMin_b :: "real option"
  breakMin_b :: "real option"
  longBreakMin_b :: "real option"
  longEvery_b :: "real option"

record island_blob =
  xpSec_b :: "real option"

record garden_blob =
  treeType_b :: "string option"
  growthSec_b :: "real option"
  harvestedOnThisTree_b :: "real option"

record labels_blob =
  items_b :: "label_item list option"
  view_b :: "string option"
  sort_b :: "string option"

record habits_blob =
  habit_items_b :: "json list option"
  completions_b :: "(string \<times> json) list option"

record blob =
  version_b :: "real option"
  profile_b :: "profile_blob option"
  ui_b :: "ui_blob option"
  tasks_b :: "task_entry list option"
  audio_b :: "audio_blob option"
  pomodoro_b :: "pomodoro_blob option"
  sessions_b :: "session list option"
  island_b :: "island_blob option"
  garden_b :: "garden_blob option"
  fruitCollection_b :: "(string \<times> real) list option"
  labels_b :: "labels_blob option"
  habits_b :: "habits_blob option"

text \<open>
  What \<open>storage.getItem\<close> and \<open>safeParseJson\<close> give: nothing, text that does not parse,
  the JSON value \<open>null\<close>, or a blob. Reading a property of \<open>null\<close> throws.
\<close>

datatype stored = NoItem | Unparsable | JsonNull | Json blob

datatype load_error = TypeError

definition defaultAudio :: audio where
  "defaultAudio =
     \<lparr> master = 0.6,
       ambient_s = \<lparr> fire = \<lparr> snd_on = False, snd_vol = 0.45 \<rparr>,
                     wind = \<lparr> snd_on = False, snd_vol = 0.35 \<rparr>,
                     sea = \<lparr> snd_on = False, snd_vol = 0.35 \<rparr>,
                     nature = \<lparr> snd_on = False, snd_vol = 0.35 \<rparr> \<rparr>,
       lofiVideoId = ''CFGLoQIhmow'',
       lofiEmbedUrl =
         ''https://www.youtube.com/embed/CFGLoQIhmow?autoplay=0&rel=0&modestbranding=1'',
       videoBgOn = False, videoBgOpacity = 0.22, videoOverlayOpacity = 0.55,
       ytVolume = 60, isPlaying = False \<rparr>"

definition defaultStateFull :: "env \<Rightarrow> full_state" where
  "defaultStateFull e =
     \<lparr> core = defaultState, version = 3, lastYearViewed = year e,
       defaultRewardMode = None, tasks = [], audio = defaultAudio,
       pomodoro = \<lparr> focusMin = 25, breakMin = 5, longBreakMin = 15, longEvery = 4 \<rparr>,
       labelsView = ''grid'', labelsSort = ''name'',
       habits = \<lparr> habit_items = [], completions = [] \<rparr> \<rparr>"

text \<open>The value of a field after \<open>{...defaults, ...section}\<close>.\<close>

definition fld :: "'s option \<Rightarrow> ('s \<Rightarrow> 'a option) \<Rightarrow> 'a \<Rightarrow> 'a" where
  "fld s f dflt = nullish_or (sect s f) dflt"

subsection \<open>The video identifier of an embed address\<close>

text \<open>
  The three regular expressions of the source look for a literal, without regard to case,
  that is followed by six or more characters of \<open>[a-zA-Z0-9_-]\<close>, and capture that run.
\<close>

definition is_idchar :: "char \<Rightarrow> bool" where
  "is_idchar c =
     (let n = (of_char c :: nat) in
      (97 \<le> n \<and> n \<le> 122) \<or> (65 \<le> n \<and> n \<le> 90) \<or> (48 \<le> n \<and> n \<le> 57)
      \<or> c = CHR ''_'' \<or> c = CHR ''-'')"

definition lower :: "char \<Rightarrow> char" where
  "lower c = (let n = (of_char c :: nat) in
              if 65 \<le> n \<and> n \<le> 90 then char_of (n + 32) else c)"

fun lit_prefix :: "(char \<Rightarrow> bool) list \<Rightarrow> string \<Rightarrow> string option" where
  "lit_prefix [] s = Some s"
| "lit_prefix (p # ps) [] = None"
| "lit_prefix (p # ps) (c # cs) = (if p c then lit_prefix ps cs else None)"

definition capture :: "string \<Rightarrow> string option" where
  "capture s = (let run = takeWhile is_idchar s in
                if 6 \<le> length run then Some run else None)"

definition match_here :: "(char \<Rightarrow> bool) list \<Rightarrow> string \<Rightarrow> string option" where
  "match_here pat s = (case lit_prefix pat s of None \<Rightarrow> None | Some rest \<Rightarrow> capture rest)"

fun search :: "(char \<Rightarrow> bool) list \<Rightarrow> string \<Rightarrow> string option" where
  "search pat [] = match_here pat []"
| "search pat (c # cs) =
     (case match_here pat (c # cs) of Some r \<Rightarrow> Some r | None \<Rightarrow> search pat cs)"

definition ci :: "string \<Rightarrow> (char \<Rightarrow> bool) list" where
  "ci lit = map (\<lambda>l c. lower c = lower l) lit"

definition extractVideoId :: "string \<Rightarrow> string" where
  "extractVideoId rawUrl =
     (let m1 = search (ci ''/embed/'') rawUrl;
          m2 = search ((\<lambda>c. c = CHR ''?'' \<or> c = CHR ''&'') # ci ''v='') rawUrl;
          m3 = search (ci ''youtu.be/'') rawUrl
      in str_or (opt_str m1) (str_or (opt_str m2) (str_or (opt_str m3) [])))"

subsection \<open>The merge with defaults\<close>

definition allowedThemes :: "string list" where
  "allowedThemes = [''midnight'', ''violet'', ''emerald'', ''ocean'', ''sunset'']"

definition loadProfile :: "env \<Rightarrow> profile_blob option \<Rightarrow> profile" where
  "loadProfile e pb =
     (let theme0 = str_or (fld pb pb_theme ''midnight'') ''midnight'' in
      \<lparr> name = fld pb pb_name ''Student'',
        weeklyGoalHours = fld pb pb_weeklyGoalHours 10,
        theme = (if theme0 \<in> set allowedThemes then theme0 else ''midnight''),
        stopwatchCapOn = fld pb pb_stopwatchCapOn True,
        stopwatchCapHours = clamp (fld pb pb_stopwatchCapHours 6) 1 24,
        sessionAmbient = fld pb pb_sessionAmbient \<lparr> atype = ''off'', volume = 0.4 \<rparr> \<rparr>)"

definition loadWorldView :: "profile_blob option \<Rightarrow> ui_blob option \<Rightarrow> string" where
  "loadWorldView pb ub =
     (let legacyMode = opt_str (sect pb pb_defaultRewardMode);
          worldView0 = fld ub ub_worldView ''island'';
          worldView1 = (if legacyMode \<noteq> [] \<and> ub = None then legacyMode else worldView0)
      in normalizeRewardMode (str_or worldView1 ''island''))"

fun loadTasks :: "env \<Rightarrow> nat \<Rightarrow> task_entry list \<Rightarrow> task list" where
  "loadTasks e i [] = []"
| "loadTasks e i (NotObject # ts) = loadTasks e i ts"
| "loadTasks e i (TaskObject t # ts) =
     \<lparr> task_id = (if rs_truthy (r_id t) then rs_string (r_id t) else uid ''id'' e i),
       task_text = take 80 (if rs_truthy (r_text t) then rs_string (r_text t) else []),
       task_done = r_done t,
       task_createdTs = (if rn_truthy (r_createdTs t) then rn_number (r_createdTs t)
                         else Some (now e)) \<rparr>
     # loadTasks e (Suc i) ts"

definition loadSound :: "amb_blob option \<Rightarrow> real \<Rightarrow> amb_sound" where
  "loadSound cur defVol =
     \<lparr> snd_on = fld cur ab_on False, snd_vol = clamp01 (fld cur ab_vol defVol) \<rparr>"

definition embedUrl :: "string \<Rightarrow> string" where
  "embedUrl vid = ''https://www.youtube.com/embed/'' @ vid @ ''?autoplay=0&rel=0&modestbranding=1''"

definition loadAudio :: "audio_blob option \<Rightarrow> audio" where
  "loadAudio ab =
     (let d = defaultAudio;
          amb = sect ab ambient_b;
          vid0 = trim (str_or (fld ab lofiVideoId_b (lofiVideoId d)) []);
          rawUrl = trim (str_or (fld ab lofiEmbedUrl_b (lofiEmbedUrl d)) []);
          vid1 = (if vid0 = [] \<and> rawUrl \<noteq> [] then extractVideoId rawUrl else vid0);
          vid = (if vid1 = [] then ''CFGLoQIhmow'' else vid1)
      in \<lparr> master = clamp01 (fld ab master_b (master d)),
           ambient_s =
             \<lparr> fire = loadSound (sect amb fire_b) (snd_vol (fire (ambient_s d))),
               wind = loadSound (sect amb wind_b) (snd_vol (wind (ambient_s d))),
               sea = loadSound (sect amb sea_b) (snd_vol (sea (ambient_s d))),
               nature = loadSound (sect amb nature_b) (snd_vol (nature (ambient_s d))) \<rparr>,
           lofiVideoId = vid,
           lofiEmbedUrl = embedUrl vid,
           videoBgOn = fld ab videoBgOn_b (videoBgOn d),
           videoBgOpacity = clamp01 (fld ab videoBgOpacity_b 0.22),
           videoOverlayOpacity = clamp01 (fld ab videoOverlayOpacity_b 0.55),
           ytVolume = clamp (fld ab ytVolume_b 60) 0 100,
           isPlaying = False \<rparr>)"

definition loadCore :: "env \<Rightarrow> blob \<Rightarrow> app_state" where
  "loadCore e st =
     \<lparr> profile = loadProfile e (profile_b st),
       ui = \<lparr> worldView = loadWorldView (profile_b st) (ui_b st) \<rparr>,
       sessions = nullish_or (sessions_b st) [],
       island = \<lparr> xpSec = fld (island_b st) xpSec_b 0 \<rparr>,
       garden = \<lparr> treeType = fld (garden_b st) treeType_b ''Apple'',
                  growthSec = fld (garden_b st) growthSec_b 0,
                  harvestedOnThisTree = fld (garden_b st) harvestedOnThisTree_b 0 \<rparr>,
       fruitCollection =
         spread (fruitCollection defaultState) (nullish_or (fruitCollection_b st) []),
       labels = \<lparr> items = fld (labels_b st) items_b [] \<rparr> \<rparr>"

text \<open>
  The merge of a parsed blob with the defaults, which is the body of \<open>loadState\<close> after
  parsing, with the durable store's entry for the custom background beside it: a legacy
  \<open>backgroundCustomData\<close> of the profile is moved there when the entry is empty.
\<close>

definition mergeDefaults :: "env \<Rightarrow> string option \<Rightarrow> blob \<Rightarrow> full_state \<times> string option" where
  "mergeDefaults e bg st =
     (let legacyBg = opt_str (sect (profile_b st) pb_backgroundCustomData);
          bg' = (if legacyBg \<noteq> [] \<and> opt_str bg = [] then Some legacyBg else bg);
          merged =
            \<lparr> core = loadCore e st,
              version = nullish_or (version_b st) 3,
              lastYearViewed = fld (profile_b st) pb_lastYearViewed (year e),
              defaultRewardMode = sect (profile_b st) pb_defaultRewardMode,
              tasks = loadTasks e 0 (nullish_or (tasks_b st) []),
              audio = loadAudio (audio_b st),
              pomodoro =
                \<lparr> focusMin = fld (pomodoro_b st) focusMin_b 25,
                  breakMin = fld (pomodoro_b st) breakMin_b 5,
                  longBreakMin = fld (pomodoro_b st) longBreakMin_b 15,
                  longEvery = fld (pomodoro_b st) longEvery_b 4 \<rparr>,
              labelsView =
                (if fld (labels_b st) view_b ''grid'' = ''list'' then ''list'' else ''grid''),
              labelsSort =
                (if fld (labels_b st) sort_b ''name'' = ''date'' then ''date'' else ''name''),
              habits =
                \<lparr> habit_items = fld (habits_b st) habit_items_b [],
                  completions = fld (habits_b st) completions_b [] \<rparr> \<rparr>
      in (merged, bg'))"

definition loadState ::
  "env \<Rightarrow> string option \<Rightarrow> stored \<Rightarrow> load_error + full_state \<times> string option" where
  "loadState e bg raw =
     (case raw of
        NoItem \<Rightarrow> Inr (defaultStateFull e, bg)
      | Unparsable \<Rightarrow> Inr (defaultStateFull e, bg)
      | JsonNull \<Rightarrow> Inl TypeError
      | Json st \<Rightarrow> Inr (mergeDefaults e bg st))"

text \<open>
  The blob that a loaded state is when it is merged again, in memory or after
  \<open>JSON.stringify\<close> and \<open>JSON.parse\<close>: every section and field is present. A task's
  identifier and text are strings, its creation time a number; \<open>NaN\<close> is falsy in memory
  and is written as \<open>null\<close>, which is falsy too.
\<close>

definition task_blob :: "task \<Rightarrow> task_entry" where
  "task_blob t =
     TaskObject
       \<lparr> r_id = \<lparr> rs_truthy = (task_id t \<noteq> []), rs_string = task_id t \<rparr>,
         r_text = \<lparr> rs_truthy = (task_text t \<noteq> []), rs_string = task_text t \<rparr>,
         r_done = task_done t,
         r_createdTs =
           \<lparr> rn_truthy = (case task_createdTs t of None \<Rightarrow> False | Some x \<Rightarrow> x \<noteq> 0),
             rn_number = task_createdTs t \<rparr> \<rparr>"

definition sound_blob :: "amb_sound \<Rightarrow> amb_blob" where
  "sound_blob a = \<lparr> ab_on = Some (snd_on a), ab_vol = Some (snd_vol a) \<rparr>"

definition to_blob :: "full_state \<Rightarrow> blob" where
  "to_blob s =
     (let c = core s; p = profile c; a = audio s in
      \<lparr> version_b = Some (version s),
        profile_b = Some
          \<lparr> pb_name = Some (name p), pb_weeklyGoalHours = Some (weeklyGoalHours p),
            pb_theme = Some (theme p), pb_lastYearViewed = Some (lastYearViewed s),
            pb_stopwatchCapOn = Some (stopwatchCapOn p),
            pb_stopwatchCapHours = Some (stopwatchCapHours p),
            pb_sessionAmbient = Some (sessionAmbient p),
            pb_defaultRewardMode = defaultRewardMode s,
            pb_backgroundCustomData = None \<rparr>,
        ui_b = Some \<lparr> ub_worldView = Some (worldView (ui c)) \<rparr>,
        tasks_b = Some (map task_blob (tasks s)),
        audio_b = Some
          \<lparr> master_b = Some (master a),
            ambient_b = Some
              \<lparr> fire_b = Some (sound_blob (fire (ambient_s a))),
                wind_b = Some (sound_blob (wind (ambient_s a))),
                sea_b = Some (sound_blob (sea (ambient_s a))),
                nature_b = Some (sound_blob (nature (ambient_s a))) \<rparr>,
            lofiVideoId_b = Some (lofiVideoId a), lofiEmbedUrl_b = Some (lofiEmbedUrl a),
            videoBgOn_b = Some (videoBgOn a), videoBgOpacity_b = Some (videoBgOpacity a),
            videoOverlayOpacity_b = Some (videoOverlayOpacity a),
            ytVolume_b = Some (ytVolume a), isPlaying_b = Some (isPlaying a) \<rparr>,
        pomodoro_b = Some
          \<lparr> focusMin_b = Some (focusMin (pomodoro s)),
            breakMin_b = Some (breakMin (pomodoro s)),
            longBreakMin_b = Some (longBreakMin (pomodoro s)),
            longEvery_b = Some (longEvery (pomodoro s)) \<rparr>,
        sessions_b = Some (sessions c),
        island_b = Some \<lparr> xpSec_b = Some (xpSec (island c)) \<rparr>,
        garden_b = Some
          \<lparr> treeType_b = Some (treeType (garden c)),
            growthSec_b = Some (growthSec (garden c)),
            harvestedOnThisTree_b = Some (harvestedOnThisTree (garden c)) \<rparr>,
        fruitCollection_b = Some (fruitCollection c),
        labels_b = Some
          \<lparr> items_b = Some (items (labels c)), view_b = Some (labelsView s),
            sort_b = Some (labelsSort s) \<rparr>,
        habits_b = Some
          \<lparr> habit_items_b = Some (habit_items (habits s)),
            completions_b = Some (completions (habits s)) \<rparr> \<rparr>)"

text \<open>
  The task fields of a blob are as the application writes them when no truthy identifier
  has an empty \<open>String\<close> and every truthy creation time has a \<open>Number\<close> that is neither
  zero nor \<open>NaN\<close>: true of strings, of numbers and of missing fields.
\<close>

fun task_fields_ok :: "task_entry \<Rightarrow> bool" where
  "task_fields_ok NotObject = True"
| "task_fields_ok (TaskObject t) =
     ((rs_truthy (r_id t) \<longrightarrow> rs_string (r_id t) \<noteq> []) \<and>
      (rn_truthy (r_createdTs t) \<longrightarrow>
         (case rn_number (r_createdTs t) of None \<Rightarrow> False | Some x \<Rightarrow> x \<noteq> 0)))"

definition blob_empty :: blob where
  "blob_empty =
     \<lparr> version_b = None, profile_b = None, ui_b = None, tasks_b = None, audio_b = None,
       pomodoro_b = None, sessions_b = None, island_b = None, garden_b = None,
       fruitCollection_b = None, labels_b = None, habits_b = None \<rparr>"

text \<open>A blob with one task whose identifier is the empty array.\<close>

definition blob_array_id :: blob where
  "blob_array_id =
     blob_empty\<lparr>tasks_b := Some
       [TaskObject
          \<lparr> r_id = \<lparr> rs_truthy = True, rs_string = [] \<rparr>,
            r_text = \<lparr> rs_truthy = True, rs_string = ''read'' \<rparr>,
            r_done = False,
            r_createdTs = \<lparr> rn_truthy = True, rn_number = Some 1700000000000 \<rparr> \<rparr>]\<rparr>"

text \<open>A blob as the application writes it: one task, a legacy default view and no view section.\<close>

definition blob_typed :: blob where
  "blob_typed =
     blob_empty\<lparr>
       profile_b := Some
         \<lparr> pb_name = Some ''Alice'', pb_weeklyGoalHours = Some 12, pb_theme = Some ''neon'',
           pb_lastYearViewed = None, pb_stopwatchCapOn = Some False,
           pb_stopwatchCapHours = Some 30, pb_sessionAmbient = None,
           pb_defaultRewardMode = Some ''garden'', pb_backgroundCustomData = Some ''data:x'' \<rparr>,
       tasks_b := Some
         [NotObject,
          TaskObject
            \<lparr> r_id = \<lparr> rs_truthy = False, rs_string = ''undefined'' \<rparr>,
              r_text = \<lparr> rs_truthy = True, rs_string = ''read chapter 3'' \<rparr>,
              r_done = True,
              r_createdTs = \<lparr> rn_truthy = False, rn_number = Some 0 \<rparr> \<rparr>]\<rparr>"

text \<open>A later moment, for loading a second time.\<close>

definition env1 :: env where
  "env1 = \<lparr> now = 1700000999000, year = 2023, fresh = (\<lambda>k. ''77aa_18bcfe5a1d8'') \<rparr>"

section \<open>Properties of the progression engine\<close>

lemma treeMin_val: "treeMin = 7200"
  by (simp add: treeMin_def TREE_STAGES_def)

lemma prop_or0_update: "prop_or0 (AList.update k v al) k = v"
  by (simp add: prop_or0_def update_conv')

lemma fruitsReady_two:
  "growthSec g = treeMin + 2 * FRUIT_RATE_SEC \<Longrightarrow> harvestedOnThisTree g = 0 \<Longrightarrow>
   computeFruitsReady g = 2"
  by (simp add: computeFruitsReady_def treeMin_val FRUIT_RATE_SEC_def num_or_def)

text \<open>
  Claim C9. With growth at the tree threshold plus exactly two fruit periods and nothing
  harvested on this tree, two fruits are ready; one harvest leaves none ready, adds two to
  the collection entry of the current tree type and two to \<open>harvestedOnThisTree\<close>; and a
  harvest in any world \<open>v\<close> with no fruit ready leaves that world as it was.
\<close>

theorem harvest_two_fruits:
  assumes "growthSec (garden (state w)) = treeMin + 2 * FRUIT_RATE_SEC"
    and "harvestedOnThisTree (garden (state w)) = 0"
  shows "computeFruitsReady (garden (state w)) = 2 \<and>
         computeFruitsReady (garden (state (harvestFruits w))) = 0 \<and>
         prop_or0 (fruitCollection (state (harvestFruits w))) (treeType (garden (state w)))
           = prop_or0 (fruitCollection (state w)) (treeType (garden (state w))) + 2 \<and>
         harvestedOnThisTree (garden (state (harvestFruits w)))
           = harvestedOnThisTree (garden (state w)) + 2 \<and>
         treeType (garden (state (harvestFruits w))) = treeType (garden (state w)) \<and>
         (computeFruitsReady (garden (state v)) = 0 \<longrightarrow> harvestFruits v = v)"
proof -
  have ready: "computeFruitsReady (garden (state w)) = 2"
    using assms by (rule fruitsReady_two)
  have noop: "computeFruitsReady (garden (state v)) = 0 \<longrightarrow> harvestFruits v = v"
    by (simp add: harvestFruits_def Let_def)
  have after: "state (harvestFruits w) =
      (state w)\<lparr>fruitCollection :=
          AList.update (treeType (garden (state w)))
            (prop_or0 (fruitCollection (state w)) (treeType (garden (state w))) + 2)
            (fruitCollection (state w)),
        garden := (garden (state w))\<lparr>harvestedOnThisTree := 2\<rparr>\<rparr>"
    using ready assms(2) by (simp add: harvestFruits_def Let_def saveState_def num_or_def)
  have gone: "computeFruitsReady (garden (state (harvestFruits w))) = 0"
    using assms(1)
    by (simp add: after computeFruitsReady_def treeMin_val FRUIT_RATE_SEC_def num_or_def)
  show ?thesis
    using ready noop gone assms(2) by (simp add: after prop_or0_update)
qed

theorem harvest_two_fruits_witness:
  "computeFruitsReady (garden (state world_mature)) = 2 \<and>
   computeFruitsReady (garden (state (harvestFruits world_mature))) = 0 \<and>
   prop_or0 (fruitCollection (state (harvestFruits world_mature))) ''Apple'' = 2 \<and>
   harvestedOnThisTree (garden (state (harvestFruits world_mature))) = 2 \<and>
   harvestFruits world0 = world0"
proof -
  have g: "growthSec (garden (state world_mature)) = treeMin + 2 * FRUIT_RATE_SEC"
    by (simp add: world_mature_def treeMin_val FRUIT_RATE_SEC_def)
  have h: "harvestedOnThisTree (garden (state world_mature)) = 0"
    by (simp add: world_mature_def)
  have z: "computeFruitsReady (garden (state world0)) = 0"
    by (simp add: world0_def defaultState_def computeFruitsReady_def treeMin_val)
  have t: "treeType (garden (state world_mature)) = ''Apple''"
    by (simp add: world_mature_def)
  have p: "prop_or0 (fruitCollection (state world_mature)) ''Apple'' = 0"
    by (simp add: world_mature_def defaultState_def prop_or0_def)
  show ?thesis
    using harvest_two_fruits [OF g h, of world0] z h by (simp add: t p)
qed

section \<open>Properties of the session ledger\<close>

lemma saveSession_NaN: "a_durationSec a = NaN \<Longrightarrow> saveSession e a w = (True, HoldsNaN)"
  by (simp add: saveSession_def)

text \<open>The three ways a call of \<open>saveSession\<close> can go.\<close>

lemma saveSession_cases:
  obtains (rejected) x where "a_durationSec a = Val x" "round x < 60"
      "saveSession e a w = (False, Numbers w)"
  | (stored) x w' where "a_durationSec a = Val x" "60 \<le> round x"
      "saveSession e a w = (True, Numbers w')"
      "sessions (state w') =
         (hd (sessions (state w')))\<lparr>durationSec := of_int (round x)\<rparr> # sessions (state w)"
      "xpSec (island (state w')) = xpSec (island (state w)) + of_int (round x)"
      "growthSec (garden (state w')) = growthSec (garden (state w)) + of_int (round x)"
  | (nan) "a_durationSec a = NaN" "saveSession e a w = (True, HoldsNaN)"
proof (cases "a_durationSec a")
  case NaN
  then show ?thesis using nan saveSession_NaN by blast
next
  case (Val x)
  show ?thesis
  proof (cases "60 \<le> round x")
    case False
    then have "saveSession e a w = (False, Numbers w)"
      using Val by (simp add: saveSession_def Let_def max_def)
    then show ?thesis using rejected [OF Val] False by simp
  next
    case True
    have "\<exists>w'. saveSession e a w = (True, Numbers w') \<and>
        sessions (state w') =
          (hd (sessions (state w')))\<lparr>durationSec := of_int (round x)\<rparr> # sessions (state w) \<and>
        xpSec (island (state w')) = xpSec (island (state w)) + of_int (round x) \<and>
        growthSec (garden (state w')) = growthSec (garden (state w)) + of_int (round x)"
      using Val True
      by (simp add: saveSession_def Let_def sbUpsertSoon_def queueSyncSoon_def
          saveState_def max_def)
    then show ?thesis using stored [OF Val True] by blast
  qed
qed

text \<open>
  On a duration that is a finite number the gate of \<open>saveSession\<close> is the comparison of
  the rounded duration with 60. The call returns success exactly when the rounded duration
  is at least 60. When the rounded duration is below 60 it returns failure and the whole
  world (session list, both counters, durable store) is unchanged. When it succeeds, the
  new record, whose duration is the rounded one, is at the front of the session list, both
  counters have grown by the rounded duration, and the new aggregate was handed to the
  durable store.
\<close>

lemma saveSession_finite_duration:
  assumes "a_durationSec a = Val x"
  shows "(fst (saveSession e a w) \<longleftrightarrow> 60 \<le> round x) \<and>
   (round x < 60 \<longrightarrow> saveSession e a w = (False, Numbers w)) \<and>
   (60 \<le> round x \<longrightarrow>
      (\<exists>w'. saveSession e a w = (True, Numbers w') \<and>
         (\<exists>s. sessions (state w') = s # sessions (state w) \<and>
              durationSec s = of_int (round x)) \<and>
         xpSec (island (state w')) = xpSec (island (state w)) + of_int (round x) \<and>
         growthSec (garden (state w')) = growthSec (garden (state w)) + of_int (round x) \<and>
         saved w' = Some (state w')))"
  using assms
  by (auto simp add: saveSession_def Let_def sbUpsertSoon_def queueSyncSoon_def
        saveState_def max_def)

text \<open>Half a second decides: 59.5 seconds round to 60 and are stored, 59.4 are not.\<close>

lemma saveSession_finite_example:
  "a_durationSec (args0 (119 / 2)) = Val (119 / 2) \<and>
   (\<exists>w'. saveSession env0 (args0 (119 / 2)) world0 = (True, Numbers w') \<and>
         length (sessions (state w')) = 1 \<and>
         xpSec (island (state w')) = 60 \<and>
         growthSec (garden (state w')) = 60) \<and>
   saveSession env0 (args0 (297 / 5)) world0 = (False, Numbers world0)"
proof -
  have v: "a_durationSec (args0 (119 / 2)) = Val (119 / 2)"
    "a_durationSec (args0 (297 / 5)) = Val (297 / 5)"
    by (simp_all add: args0_def)
  have hi: "round (119 / 2 :: real) = 60" by (simp add: round_def)
  have lo: "round (297 / 5 :: real) = 59" by (simp add: round_def)
  have s0: "sessions (state world0) = []" "xpSec (island (state world0)) = 0"
    "growthSec (garden (state world0)) = 0"
    by (simp_all add: world0_def defaultState_def)
  have rejected: "saveSession env0 (args0 (297 / 5)) world0 = (False, Numbers world0)"
    using saveSession_finite_duration [OF v(2), of env0 world0] by (simp add: lo)
  have "\<exists>w'. saveSession env0 (args0 (119 / 2)) world0 = (True, Numbers w') \<and>
      (\<exists>s. sessions (state w') = [s]) \<and>
      xpSec (island (state w')) = 60 \<and> growthSec (garden (state w')) = 60"
    using saveSession_finite_duration [OF v(1), of env0 world0] by (simp add: hi s0) blast
  then have accepted: "\<exists>w'. saveSession env0 (args0 (119 / 2)) world0 = (True, Numbers w') \<and>
      length (sessions (state w')) = 1 \<and>
      xpSec (island (state w')) = 60 \<and> growthSec (garden (state w')) = 60"
    by fastforce
  from v(1) accepted rejected show ?thesis by simp
qed

text \<open>
  Claim C1 asks that, for every duration, a session is persisted exactly when the rounded
  duration is at least 60, and that a rejected call leaves the list and both counters as
  they were. The gate of \<open>saveSession\<close> is the comparison \<open>dur < 60\<close>, and it misses the
  duration \<open>NaN\<close>, which \<open>manualAddSession\<close> hands over when the hours field holds text
  that \<open>Number\<close> cannot read: \<open>Math.max(0, Math.round(NaN))\<close> is \<open>NaN\<close> and \<open>NaN < 60\<close>
  is false. At this input \<open>saveSession\<close> returns true and the session is stored, with
  \<open>NaN\<close> in the aggregate, although \<open>round(NaN) >= 60\<close> is false as well.
\<close>

theorem saveSession_nan_duration:
  "fst (saveSession env0 args_nan world0) \<and>
   snd (saveSession env0 args_nan world0) = HoldsNaN \<and>
   \<not> js_ge (js_round (a_durationSec args_nan)) 60 \<and>
   \<not> js_less (js_max 0 (js_round (a_durationSec args_nan))) 60"
  by (simp add: saveSession_def args_nan_def)

lemma findIndex_None: "findIndex P xs = None \<longleftrightarrow> (\<forall>x\<in>set xs. \<not> P x)"
  by (induction xs) auto

text \<open>
  Claim C10 says that an identifier which no stored session has leaves everything as it
  was. The source compares \<open>String(s.id)\<close> with the identifier, so a session without \<open>id\<close>
  answers to the identifier \<open>undefined\<close>, which is also what its delete button carries:
  the session is removed, both counters go down by its duration and the remote delete is
  sent under its \<open>clientId\<close>.
\<close>

theorem deleteSessionById_absent_id:
  "map sid (sessions (state world_noid)) = [None] \<and>
   fst (deleteSessionById ''undefined'' world_noid) \<and>
   sessions (state (snd (deleteSessionById ''undefined'' world_noid))) = [] \<and>
   xpSec (island (state world_noid)) = 1500 \<and>
   xpSec (island (state (snd (deleteSessionById ''undefined'' world_noid)))) = 0 \<and>
   growthSec (garden (state (snd (deleteSessionById ''undefined'' world_noid)))) = 0 \<and>
   calls (snd (deleteSessionById ''undefined'' world_noid))
     = [DeleteSession ''s_77aa_1690000000000'']"
  by (simp add: deleteSessionById_def world_noid_def sess_noid_def world0_def js_String_def
      Let_def num_or_def str_or_def saveState_def sbDeleteSession_def sbSignedIn_def)

text \<open>
  Claim C10, as the source has it. \<open>deleteSessionById\<close> returns true exactly when the
  identifier is not empty and some stored session reads as it through \<open>String(s.id)\<close>,
  where a session without \<open>id\<close> reads as \<open>undefined\<close>. When the identifier is empty, or
  no stored session reads as it, the call returns false and the whole world is unchanged:
  the session list, both counters, the durable store, and the list of remote requests (no
  remote delete is issued).
\<close>

theorem deleteSessionById_unknown_id:
  "(fst (deleteSessionById sessionId w) \<longleftrightarrow>
      sessionId \<noteq> [] \<and> (\<exists>s\<in>set (sessions (state w)). js_String (sid s) = sessionId)) \<and>
   (sessionId = [] \<or> (\<forall>s\<in>set (sessions (state w)). js_String (sid s) \<noteq> sessionId) \<longrightarrow>
      deleteSessionById sessionId w = (False, w))"
proof -
  have none: "findIndex (\<lambda>s. js_String (sid s) = sessionId) (sessions (state w)) = None
      \<longleftrightarrow> (\<forall>s\<in>set (sessions (state w)). js_String (sid s) \<noteq> sessionId)"
    by (simp add: findIndex_None)
  show ?thesis
  proof (cases "findIndex (\<lambda>s. js_String (sid s) = sessionId) (sessions (state w))")
    case None
    then show ?thesis using none by (auto simp add: deleteSessionById_def)
  next
    case (Some idx)
    then have "\<exists>s\<in>set (sessions (state w)). js_String (sid s) = sessionId"
      using none by auto
    then show ?thesis using Some by (auto simp add: deleteSessionById_def Let_def)
  qed
qed

lemma world1_eq:
  "saveSession env0 (args0 1500) world0 = (True, Numbers world1)"
  by (simp add: world1_def saveSession_def args0_def Let_def)

lemma world1_sessions:
  "map sid (sessions (state world1)) = [Some ''s_1f3a_1700000000000'']"
  by (simp add: world1_def saveSession_def args0_def Let_def env0_def world0_def
      defaultState_def sbUpsertSoon_def queueSyncSoon_def sbSignedIn_def saveState_def)

theorem deleteSessionById_unknown_id_witness:
  "deleteSessionById ''s_none'' world1 = (False, world1) \<and>
   deleteSessionById [] world1 = (False, world1) \<and>
   deleteSessionById ''s_none'' world_noid = (False, world_noid) \<and>
   fst (deleteSessionById ''s_1f3a_1700000000000'' world1) \<and>
   \<not> fst (deleteSessionById ''undefined'' world1)"
proof -
  have ids: "map (\<lambda>s. js_String (sid s)) (sessions (state world1)) = [''s_1f3a_1700000000000'']"
    using world1_sessions [THEN arg_cong, of "map js_String"]
    by (simp add: comp_def js_String_def)
  have mem: "(\<exists>s\<in>set (sessions (state world1)). js_String (sid s) = i)
      \<longleftrightarrow> i = ''s_1f3a_1700000000000''" for i
  proof -
    have "(\<exists>s\<in>set (sessions (state world1)). js_String (sid s) = i)
        \<longleftrightarrow> i \<in> set (map (\<lambda>s. js_String (sid s)) (sessions (state world1)))"
      by auto
    then show ?thesis by (simp only: ids) auto
  qed
  have noid: "\<forall>s\<in>set (sessions (state world_noid)). js_String (sid s) \<noteq> ''s_none''"
    by (simp add: world_noid_def sess_noid_def js_String_def)
  have a: "deleteSessionById ''s_none'' world1 = (False, world1)"
    using deleteSessionById_unknown_id [of "''s_none''" world1] mem [of "''s_none''"]
    by simp
  have b: "deleteSessionById [] world1 = (False, world1)"
    using deleteSessionById_unknown_id [of "[]" world1] by simp
  have c: "deleteSessionById ''s_none'' world_noid = (False, world_noid)"
    using deleteSessionById_unknown_id [of "''s_none''" world_noid] noid by simp
  have d: "fst (deleteSessionById ''s_1f3a_1700000000000'' world1)"
    using deleteSessionById_unknown_id [of "''s_1f3a_1700000000000''" world1]
      mem [of "''s_1f3a_1700000000000''"] by simp
  have e: "\<not> fst (deleteSessionById ''undefined'' world1)"
    using deleteSessionById_unknown_id [of "''undefined''" world1] mem [of "''undefined''"]
    by simp
  from a b c d e show ?thesis by simp
qed

subsection \<open>Progression coupling\<close>






text \<open>An operation on numbers leaves a world, so a trace of such operations is complete.\<close>

lemma number_op_world: "number_op x \<Longrightarrow> \<exists>w'. apply_op x w = Numbers w'"
proof (cases x)
  case (OpSave e a)
  assume "number_op x"
  with OpSave have "a_durationSec a \<noteq> NaN" by simp
  then show ?thesis
    using OpSave by (cases rule: saveSession_cases [where e = e and a = a and w = w]) simp_all
qed simp_all

lemma trace_complete:
  "\<forall>x\<in>set ops. number_op x \<Longrightarrow> length (trace ops w) = length ops"
proof (induction ops arbitrary: w)
  case Nil
  then show ?case by simp
next
  case (Cons x xs)
  then obtain w' where "apply_op x w = Numbers w'" using number_op_world [of x w] by auto
  then show ?case using Cons by simp
qed


lemma trace_ops0:
  "map (\<lambda>v. (xpSec (island (state v)), length (sessions (state v)))) (trace ops0 world0)
     = [(1500, 1), (1500, 1), (0, 0), (90, 1), (0, 0)]"
  by (simp add: ops0_def saveSession_def deleteSessionById_def resetStats_def args0_def
      Let_def env0_def world0_def defaultState_def sbUpsertSoon_def queueSyncSoon_def
      sbSignedIn_def saveState_def sbDeleteSession_def sbDeleteAllSessions_def num_or_def
      js_String_def)

lemma number_ops0: "\<forall>x\<in>set ops0. number_op x"
  by (simp add: ops0_def args0_def)


section \<open>Properties of the sync reconciler\<close>

subsection \<open>Maps kept as association lists\<close>

lemma map_of_spread: "map_of (spread a b) = map_of a ++ map_of (rev b)"
  unfolding spread_def
proof (induction b arbitrary: a)
  case Nil
  then show ?case by simp
next
  case (Cons x b)
  obtain k v where x: "x = (k, v)" by (cases x)
  show ?case
    by (rule ext) (simp add: Cons.IH x update_conv' map_add_def split: option.splits)
qed

lemma distinct_spread: "distinct (map fst a) \<Longrightarrow> distinct (map fst (spread a b))"
  unfolding spread_def
  by (induction b arbitrary: a) (auto simp add: distinct_update)

lemma set_update_subset: "set (AList.update k v al) \<subseteq> insert (k, v) (set al)"
  by (induction al) auto

lemma keyed_spread:
  "\<forall>p\<in>set a. f (snd p) = fst p \<Longrightarrow> \<forall>p\<in>set b. f (snd p) = fst p \<Longrightarrow>
   \<forall>p\<in>set (spread a b). f (snd p) = fst p"
  unfolding spread_def
proof (induction b arbitrary: a)
  case Nil
  then show ?case by simp
next
  case (Cons x b)
  obtain k v where x: "x = (k, v)" by (cases x)
  have "\<forall>p\<in>set (AList.update k v a). f (snd p) = fst p"
    using Cons.prems x set_update_subset [of k v a] by auto
  then show ?case using Cons.IH [of "AList.update k v a"] Cons.prems(2) x by simp
qed

lemma map_from_spread: "map_from es = spread [] es"
  by (simp add: map_from_def spread_def)

lemma find_keyed: "\<forall>p\<in>set al. f (snd p) = fst p \<Longrightarrow> find (\<lambda>x. f x = i) (map snd al) = map_of al i"
  by (induction al) auto

lemma keyed_map: "\<forall>p\<in>set al. f (snd p) = fst p \<Longrightarrow> map f (map snd al) = map fst al"
  by (induction al) auto

lemma map_of_entries: "map_of (map (\<lambda>x. (f x, x)) xs) i = find (\<lambda>x. f x = i) xs"
  by (induction xs) auto


lemma find_Some_mem: "find P xs = Some x \<Longrightarrow> x \<in> set xs"
  by (induction xs) (auto split: if_splits)

lemma find_Some_P: "find P xs = Some x \<Longrightarrow> P x"
  by (induction xs) (auto split: if_splits)

lemma find_key_exists: "x \<in> set xs \<Longrightarrow> \<exists>y. find (\<lambda>z. f z = f x) xs = Some y"
  by (cases "find (\<lambda>z. f z = f x) xs") (auto simp add: find_None_iff)

lemma find_distinct_key:
  "distinct (map f xs) \<Longrightarrow> (find (\<lambda>x. f x = i) xs = Some y) = (y \<in> set xs \<and> f y = i)"
  by (induction xs) auto

lemma distinct_map_insort:
  "distinct (map f (insort_key g x xs)) = (f x \<notin> f ` set xs \<and> distinct (map f xs))"
  by (induction xs) (auto simp add: set_insort_key)

lemma distinct_map_sort: "distinct (map f (sort_key g xs)) = distinct (map f xs)"
  by (induction xs) (simp_all add: distinct_map_insort)

lemma find_sort_distinct:
  assumes "distinct (map f xs)"
  shows "find (\<lambda>x. f x = i) (sort_key g xs) = find (\<lambda>x. f x = i) xs"
proof (cases "find (\<lambda>x. f x = i) xs")
  case None
  then have "\<forall>x\<in>set xs. f x \<noteq> i" by (simp add: find_None_iff)
  then have "find (\<lambda>x. f x = i) (sort_key g xs) = None" by (simp add: find_None_iff)
  then show ?thesis using None by simp
next
  case (Some y)
  then have "y \<in> set xs \<and> f y = i" using assms by (simp add: find_distinct_key)
  then have "find (\<lambda>x. f x = i) (sort_key g xs) = Some y"
    using assms by (simp add: find_distinct_key distinct_map_sort)
  then show ?thesis using Some by simp
qed

lemma map_of_add_absent:
  "map_of (add_absent key rs m0) i =
     (case map_of m0 i of Some s \<Rightarrow> Some s | None \<Rightarrow> find (\<lambda>s. key s = i) rs)"
  unfolding add_absent_def
proof (induction rs arbitrary: m0)
  case Nil
  then show ?case by (simp split: option.splits)
next
  case (Cons x rs)
  show ?case
  proof (cases "key x \<in> fst ` set m0")
    case True
    then have "map_of m0 (key x) \<noteq> None" by (simp add: map_of_eq_None_iff)
    then show ?thesis using True by (auto simp add: Cons.IH split: option.splits)
  next
    case False
    then have "map_of m0 (key x) = None" by (simp add: map_of_eq_None_iff)
    then show ?thesis using False
      by (auto simp add: Cons.IH update_conv' split: option.splits)
  qed
qed

lemma distinct_add_absent:
  "distinct (map fst m0) \<Longrightarrow> distinct (map fst (add_absent key rs m0))"
  unfolding add_absent_def
  by (induction rs arbitrary: m0) (auto simp add: distinct_update)

lemma keyed_add_absent:
  "\<forall>p\<in>set m0. key (snd p) = fst p \<Longrightarrow> \<forall>p\<in>set (add_absent key rs m0). key (snd p) = fst p"
  unfolding add_absent_def
proof (induction rs arbitrary: m0)
  case Nil
  then show ?case by simp
next
  case (Cons x rs)
  have "\<forall>p\<in>set (AList.update (key x) x m0). key (snd p) = fst p"
    using Cons.prems set_update_subset [of "key x" x m0] by auto
  then show ?case using Cons.IH Cons.prems by simp
qed

subsection \<open>Session merge\<close>

lemma num_or_zero: "num_or x 0 = x"
  by (simp add: num_or_def)

lemma mergeSessions_alt:
  "mergeSessions local remoteSessions =
     sort_key (\<lambda>s. - num_or (endTs s) 0)
       (map snd (add_absent session_key remoteSessions
                   (spread [] (map (\<lambda>s. (session_key s, s)) local))))"
  by (simp add: mergeSessions_def Let_def add_absent_def map_from_spread)

lemma mergeSessions_keyed:
  "\<forall>p\<in>set (add_absent session_key remoteSessions
              (spread [] (map (\<lambda>s. (session_key s, s)) local))). session_key (snd p) = fst p"
  by (intro keyed_add_absent keyed_spread) auto

lemma mergeSessions_distinct:
  "distinct (map session_key (mergeSessions local remoteSessions))"
proof -
  have "distinct (map fst (add_absent session_key remoteSessions
              (spread [] (map (\<lambda>s. (session_key s, s)) local))))"
    by (intro distinct_add_absent distinct_spread) simp
  then show ?thesis
    unfolding mergeSessions_alt distinct_map_sort keyed_map [OF mergeSessions_keyed] .
qed

lemma mergeSessions_find:
  "find (\<lambda>s. session_key s = i) (mergeSessions local remoteSessions) =
     (case find (\<lambda>s. session_key s = i) (rev local) of
        Some s \<Rightarrow> Some s
      | None \<Rightarrow> find (\<lambda>s. session_key s = i) remoteSessions)"
proof -
  let ?m = "add_absent session_key remoteSessions
              (spread [] (map (\<lambda>s. (session_key s, s)) local))"
  have d: "distinct (map session_key (map snd ?m))"
    unfolding keyed_map [OF mergeSessions_keyed]
    by (intro distinct_add_absent distinct_spread) simp
  have "find (\<lambda>s. session_key s = i) (mergeSessions local remoteSessions)
          = find (\<lambda>s. session_key s = i) (map snd ?m)"
    unfolding mergeSessions_alt using d by (rule find_sort_distinct)
  also have "\<dots> = map_of ?m i"
    using mergeSessions_keyed by (rule find_keyed)
  also have "\<dots> = (case find (\<lambda>s. session_key s = i) (rev local) of
        Some s \<Rightarrow> Some s
      | None \<Rightarrow> find (\<lambda>s. session_key s = i) remoteSessions)"
    by (simp add: map_of_add_absent map_of_spread rev_map map_of_entries)
  finally show ?thesis .
qed

lemma mergeSessions_sorted:
  "sorted_wrt (\<lambda>a b. endTs b \<le> endTs a) (mergeSessions local remoteSessions)"
proof -
  have "sorted (map (\<lambda>s. - num_or (endTs s) 0) (mergeSessions local remoteSessions))"
    unfolding mergeSessions_alt by (rule sorted_sort_key)
  then show ?thesis by (simp add: sorted_map num_or_zero)
qed

lemma mergeSessions_set:
  "set (mergeSessions local remoteSessions) \<subseteq> set local \<union> set remoteSessions"
proof
  fix s assume "s \<in> set (mergeSessions local remoteSessions)"
  then have "find (\<lambda>x. session_key x = session_key s) (mergeSessions local remoteSessions) = Some s"
    using mergeSessions_distinct [of local remoteSessions] by (simp add: find_distinct_key)
  then show "s \<in> set local \<union> set remoteSessions"
    by (auto simp add: mergeSessions_find split: option.splits dest: find_Some_mem)
qed

lemma mergeSessions_collision:
  assumes "s \<in> set (mergeSessions local remoteSessions)"
    and "session_key s \<in> session_key ` set local"
  shows "s \<in> set local"
proof -
  have f: "find (\<lambda>x. session_key x = session_key s) (mergeSessions local remoteSessions) = Some s"
    using assms(1) mergeSessions_distinct [of local remoteSessions] by (simp add: find_distinct_key)
  obtain l where "l \<in> set (rev local)" "session_key l = session_key s"
    using assms(2) by auto
  then obtain y where y: "find (\<lambda>z. session_key z = session_key s) (rev local) = Some y"
    using find_key_exists [of l "rev local" session_key] by auto
  with f have "y = s" by (simp add: mergeSessions_find)
  with y show ?thesis using find_Some_mem [of _ "rev local" s] by auto
qed

lemma mergeSessions_local_kept:
  assumes "l \<in> set local"
  shows "\<exists>s\<in>set (mergeSessions local remoteSessions). s \<in> set local \<and> session_key s = session_key l"
proof -
  obtain y where y: "find (\<lambda>z. session_key z = session_key l) (rev local) = Some y"
    using find_key_exists [of l "rev local" session_key] assms by auto
  then have "find (\<lambda>z. session_key z = session_key l) (mergeSessions local remoteSessions) = Some y"
    by (simp add: mergeSessions_find)
  then have "y \<in> set (mergeSessions local remoteSessions)" by (rule find_Some_mem)
  moreover have "y \<in> set local" using find_Some_mem [OF y] by simp
  moreover have "session_key y = session_key l" using find_Some_P [OF y] .
  ultimately show ?thesis by blast
qed

lemma mergeSessions_local_distinct:
  assumes "distinct (map session_key local)" "l \<in> set local"
  shows "l \<in> set (mergeSessions local remoteSessions)"
proof -
  have "distinct (map session_key (rev local))"
    using assms(1) by (simp add: rev_map [symmetric])
  then have "find (\<lambda>z. session_key z = session_key l) (rev local) = Some l"
    using assms(2) by (simp add: find_distinct_key)
  then have "find (\<lambda>z. session_key z = session_key l) (mergeSessions local remoteSessions) = Some l"
    by (simp add: mergeSessions_find)
  then show ?thesis by (rule find_Some_mem)
qed

lemma mergeSessions_remote_added:
  assumes "x \<in> set remoteSessions" "session_key x \<notin> session_key ` set local"
  shows "\<exists>s\<in>set (mergeSessions local remoteSessions). s \<in> set remoteSessions \<and> session_key s = session_key x"
proof -
  have "\<forall>z\<in>set local. session_key z \<noteq> session_key x"
    using assms(2) by (metis image_eqI)
  then have n: "find (\<lambda>z. session_key z = session_key x) (rev local) = None"
    by (simp add: find_None_iff)
  obtain y where y: "find (\<lambda>z. session_key z = session_key x) remoteSessions = Some y"
    using find_key_exists [of x remoteSessions session_key] assms(1) by auto
  then have "find (\<lambda>z. session_key z = session_key x) (mergeSessions local remoteSessions) = Some y"
    using n by (simp add: mergeSessions_find)
  then have "y \<in> set (mergeSessions local remoteSessions)" by (rule find_Some_mem)
  moreover have "y \<in> set remoteSessions" using y by (rule find_Some_mem)
  moreover have "session_key y = session_key x" using find_Some_P [OF y] .
  ultimately show ?thesis by blast
qed

lemma pullSessions_Data:
  "sesRes r = Data rows \<Longrightarrow>
   sessions (state (pullSessions e r w)) =
     mergeSessions (sessions (state w)) (map (rowToLocalSession e (state w)) rows)"
  by (simp add: pullSessions_def Let_def)

text \<open>
  Claim C3. In the pull phase's session merge (the remote answer being a list of rows), the
  resulting list is sorted by \<open>endTs\<close> in descending order and holds one session per key
  (\<open>clientId\<close>, or \<open>id\<close> when that is empty). Local wins: a stored session whose key occurs
  locally is one of the local sessions, with all its fields; every local key is still
  represented by a local session, and when the local keys are distinct every local session
  is retained. A remote row is added only when its key is absent locally, and nothing but
  local sessions and converted remote rows is stored.
\<close>

theorem pull_sessions_local_wins:
  assumes "sesRes r = Data rows"
  shows "sorted_wrt (\<lambda>a b. endTs b \<le> endTs a) (sessions (state (pullSessions e r w))) \<and>
    distinct (map session_key (sessions (state (pullSessions e r w)))) \<and>
    (\<forall>s\<in>set (sessions (state (pullSessions e r w))).
        session_key s \<in> session_key ` set (sessions (state w)) \<longrightarrow> s \<in> set (sessions (state w))) \<and>
    (\<forall>l\<in>set (sessions (state w)).
        \<exists>s\<in>set (sessions (state (pullSessions e r w))).
          s \<in> set (sessions (state w)) \<and> session_key s = session_key l) \<and>
    (distinct (map session_key (sessions (state w))) \<longrightarrow>
        set (sessions (state w)) \<subseteq> set (sessions (state (pullSessions e r w)))) \<and>
    (\<forall>x\<in>set (map (rowToLocalSession e (state w)) rows).
        session_key x \<notin> session_key ` set (sessions (state w)) \<longrightarrow>
        (\<exists>s\<in>set (sessions (state (pullSessions e r w))).
           s \<in> set (map (rowToLocalSession e (state w)) rows) \<and> session_key s = session_key x)) \<and>
    set (sessions (state (pullSessions e r w)))
      \<subseteq> set (sessions (state w)) \<union> set (map (rowToLocalSession e (state w)) rows)"
  unfolding pullSessions_Data [OF assms]
  using mergeSessions_sorted mergeSessions_distinct mergeSessions_collision
    mergeSessions_local_kept mergeSessions_local_distinct mergeSessions_remote_added
    mergeSessions_set
  by (intro conjI ballI impI subsetI) blast+

lemma remote1_fields:
  "sesRes remote1 = Data [row_X, row_Y]" "lblRes remote1 = Data [lrow_del, lrow_a, lrow_b]"
  "profRes remote1 = Data (Some row_full)" "delRes remote1 = False"
  by (simp_all add: remote1_def)

lemma world_sync_fields:
  "sessions (state world_sync) = [sess_W, sess_X]"
  "items (labels (state world_sync)) = [label_a]"
  "deletedLabelIds (sb world_sync) = [''lbl_del'']"
  "signedIn (sb world_sync)" "\<not> syncing (sb world_sync)" "\<not> forcePushOnce (sb world_sync)"
  "ui (state world_sync) = \<lparr> worldView = ''island'' \<rparr>"
  "calls world_sync = []"
  by (simp_all add: world_sync_def world0_def st_alice_def defaultState_def)

lemma conv_rows:
  "rowToLocalSession env0 (state world_sync) row_X =
     \<lparr> sid = Some ''X'', clientId = ''X'', startTs = 8995000, endTs = 9000000,
       durationSec = 5, method_s = ''manual'', rewardMode = ''garden'', label = ''Other'' \<rparr>"
  "rowToLocalSession env0 (state world_sync) row_Y =
     \<lparr> sid = Some ''Y'', clientId = ''Y'', startTs = 2995000, endTs = 3000000,
       durationSec = 5, method_s = ''manual'', rewardMode = ''island'', label = [] \<rparr>"
  by (simp_all add: rowToLocalSession_def row_X_def row_Y_def world_sync_fields Let_def
      opt_or_def num_or_def str_or_def opt_str_def)

lemma pulled_sessions:
  "sessions (state (pullSessions env0 remote1 world_sync)) =
     [sess_X, rowToLocalSession env0 (state world_sync) row_Y, sess_W]"
  by (simp add: pullSessions_Data [OF remote1_fields(1)] world_sync_fields conv_rows
      mergeSessions_def map_from_def Let_def session_key_def str_or_def num_or_def
      sess_X_def sess_W_def)

theorem pull_sessions_local_wins_witness:
  "sessions (state (pullSessions env0 remote1 world_sync)) =
     [sess_X, rowToLocalSession env0 (state world_sync) row_Y, sess_W] \<and>
   session_key (rowToLocalSession env0 (state world_sync) row_X) = session_key sess_X \<and>
   rowToLocalSession env0 (state world_sync) row_X \<noteq> sess_X \<and>
   sess_X \<in> set (sessions (state (pullSessions env0 remote1 world_sync))) \<and>
   rowToLocalSession env0 (state world_sync) row_X
     \<notin> set (sessions (state (pullSessions env0 remote1 world_sync))) \<and>
   sorted_wrt (\<lambda>a b. endTs b \<le> endTs a) (sessions (state (pullSessions env0 remote1 world_sync)))"
proof -
  note th = pull_sessions_local_wins [OF remote1_fields(1), of env0 world_sync]
  have k: "session_key (rowToLocalSession env0 (state world_sync) row_X) = session_key sess_X"
    by (simp add: conv_rows session_key_def sess_X_def)
  have ne: "rowToLocalSession env0 (state world_sync) row_X \<noteq> sess_X"
    by (simp add: conv_rows sess_X_def)
  have loc: "session_key (rowToLocalSession env0 (state world_sync) row_X)
               \<in> session_key ` set (sessions (state world_sync))"
    by (simp add: k world_sync_fields)
  have notloc: "rowToLocalSession env0 (state world_sync) row_X \<notin> set (sessions (state world_sync))"
    by (simp add: world_sync_fields conv_rows sess_X_def sess_W_def)
  have d: "distinct (map session_key (sessions (state world_sync)))"
    by (simp add: world_sync_fields session_key_def sess_X_def sess_W_def str_or_def)
  have inx: "sess_X \<in> set (sessions (state (pullSessions env0 remote1 world_sync)))"
    using th d by (auto simp add: world_sync_fields)
  have out: "rowToLocalSession env0 (state world_sync) row_X
     \<notin> set (sessions (state (pullSessions env0 remote1 world_sync)))"
    using th loc notloc by blast
  show ?thesis using th k ne inx out pulled_sessions by blast
qed

subsection \<open>Label merge\<close>















subsection \<open>The one-shot force push\<close>

lemma ensureSessionIds_id:
  "\<forall>s\<in>set ss. clientId s \<noteq> [] \<Longrightarrow> ensureSessionIds e i ss = ss"
  by (induction ss arbitrary: i) (simp_all add: Let_def)

lemma ensureLabelIds_id:
  "\<forall>l\<in>set ls. lid l \<noteq> [] \<Longrightarrow> ensureLabelIds e i ls = ls"
  by (induction ls arbitrary: i) simp_all

lemma ensureClientIds_frame:
  "sb (ensureClientIds e w) = sb w" "calls (ensureClientIds e w) = calls w"
  "profile (state (ensureClientIds e w)) = profile (state w)"
  by (simp_all add: ensureClientIds_def Let_def)

lemma flushTombstones_state: "state (flushTombstones r w) = state w"
  by (simp add: flushTombstones_def sbDeleteLabelsNow_def sbSaveMeta_def Let_def split: prod.splits)

lemma flushTombstones_force: "forcePushOnce (sb (flushTombstones r w)) = forcePushOnce (sb w)"
  by (simp add: flushTombstones_def sbDeleteLabelsNow_def sbSaveMeta_def Let_def split: prod.splits)

lemma flushTombstones_calls:
  "filter is_select (calls (flushTombstones r w)) = filter is_select (calls w)"
  by (simp add: flushTombstones_def sbDeleteLabelsNow_def sbSaveMeta_def Let_def is_select_def split: prod.splits)

lemma pushAll_frame: "state (pushAll w) = state w" "sb (pushAll w) = sb w"
  "filter is_select (calls (pushAll w)) = filter is_select (calls w)"
  by (simp_all add: pushAll_def Let_def is_select_def)

lemma fullSync_force:
  assumes "signedIn (sb w)" "\<not> syncing (sb w)" "forcePushOnce (sb w)"
  shows "fullSync e r w =
     (let w3 = flushTombstones r (ensureClientIds e (w\<lparr>sb := (sb w)\<lparr>syncing := True\<rparr>\<rparr>));
          w6 = pushAll (sbSaveMeta (w3\<lparr>sb := (sb w3)\<lparr>forcePushOnce := False\<rparr>\<rparr>));
          w8 = saveState (sbSaveMeta (w6\<lparr>sb := (sb w6)\<lparr>lastSyncMs := now e\<rparr>\<rparr>))
      in w8\<lparr>sb := (sb w8)\<lparr>syncing := False\<rparr>\<rparr>)"
  using assms
  by (simp add: fullSync_def Let_def sbSignedIn_def flushTombstones_force ensureClientIds_frame)

text \<open>
  Claim C5. When a pass starts (signed in, no pass running) with \<open>forcePushOnce\<close> set,
  the aggregate after the pass is the one \<open>ensureClientIds\<close> leaves, whatever the remote
  store answers: the profile is unchanged, and when every session and label already has
  its identifier the whole aggregate is unchanged. No select request is sent, and the flag
  is false after the pass.
\<close>

theorem force_push_skips_pull:
  assumes "signedIn (sb w)" "\<not> syncing (sb w)" "forcePushOnce (sb w)"
  shows "state (fullSync e r w) = state (ensureClientIds e w) \<and>
         profile (state (fullSync e r w)) = profile (state w) \<and>
         ((\<forall>s\<in>set (sessions (state w)). clientId s \<noteq> []) \<and>
          (\<forall>l\<in>set (items (labels (state w))). lid l \<noteq> []) \<longrightarrow>
            state (fullSync e r w) = state w) \<and>
         filter is_select (calls (fullSync e r w)) = filter is_select (calls w) \<and>
         \<not> forcePushOnce (sb (fullSync e r w))"
proof -
  let ?w1 = "w\<lparr>sb := (sb w)\<lparr>syncing := True\<rparr>\<rparr>"
  have st: "state (fullSync e r w) = state (ensureClientIds e w)"
    by (simp add: fullSync_force [OF assms] Let_def saveState_def sbSaveMeta_def pushAll_frame
        flushTombstones_state ensureClientIds_def)
  have fl: "\<not> forcePushOnce (sb (fullSync e r w))"
    by (simp add: fullSync_force [OF assms] Let_def saveState_def sbSaveMeta_def pushAll_frame)
  have cl: "filter is_select (calls (fullSync e r w)) = filter is_select (calls w)"
    by (simp add: fullSync_force [OF assms] Let_def saveState_def sbSaveMeta_def pushAll_frame
        flushTombstones_calls ensureClientIds_def)
  have same: "(\<forall>s\<in>set (sessions (state w)). clientId s \<noteq> []) \<and>
          (\<forall>l\<in>set (items (labels (state w))). lid l \<noteq> []) \<longrightarrow> state (ensureClientIds e w) = state w"
    by (simp add: ensureClientIds_def Let_def ensureSessionIds_id ensureLabelIds_id)
  show ?thesis using st fl cl same by (simp add: ensureClientIds_frame)
qed

lemma world_forced_fields:
  "signedIn (sb world_forced)" "\<not> syncing (sb world_forced)" "forcePushOnce (sb world_forced)"
  "state world_forced = state world_sync"
  by (simp_all add: world_forced_def world_sync_fields)

theorem force_push_skips_pull_witness:
  "forcePushOnce (sb world_forced) \<and>
   state (fullSync env0 remote1 world_forced) = state world_forced \<and>
   \<not> forcePushOnce (sb (fullSync env0 remote1 world_forced)) \<and>
   filter is_select (calls (fullSync env0 remote1 world_forced)) = []"
proof -
  note th = force_push_skips_pull [OF world_forced_fields(1,2,3), of env0 remote1]
  have ids: "(\<forall>s\<in>set (sessions (state world_forced)). clientId s \<noteq> []) \<and>
     (\<forall>l\<in>set (items (labels (state world_forced))). lid l \<noteq> [])"
    by (simp add: world_forced_fields world_sync_fields sess_X_def sess_W_def label_a_def)
  have c0: "filter is_select (calls world_forced) = []"
    by (simp add: world_forced_def world_sync_fields)
  have st: "state (fullSync env0 remote1 world_forced) = state world_forced"
    using th ids by blast
  have fl: "\<not> forcePushOnce (sb (fullSync env0 remote1 world_forced))"
    using th by blast
  have cl: "filter is_select (calls (fullSync env0 remote1 world_forced)) = []"
    using th c0 by simp
  show ?thesis using st fl cl world_forced_fields(3) by blast
qed

subsection \<open>Applying the remote profile row\<close>

text \<open>
  Claim C6 says that every field of a fetched profile row overwrites the local field
  whatever its value. The source falls back to the local value with \<open>||\<close> and \<open>??\<close>
  and clamps two fields: an empty remote name leaves the local name, a remote cap of zero
  hours is stored as one, and a null weekly goal leaves the local goal.
\<close>

theorem profile_row_not_unconditional:
  "display_name row_blank = Some [] \<and>
   name (profile (applyProfileRow row_blank st_alice)) = ''Alice'' \<and>
   stopwatch_cap_hours row_blank = Some 0 \<and>
   stopwatchCapHours (profile (applyProfileRow row_blank st_alice)) = 1 \<and>
   weekly_goal_hours row_blank = None \<and>
   weeklyGoalHours (profile (applyProfileRow row_blank st_alice)) = 10"
  by (simp add: row_blank_def row_none_def st_alice_def defaultState_def applyProfileRow_def Let_def
      str_or_def opt_str_def nullish_or_def clamp_def)

text \<open>
  Claim C6, as the source has it. A numeric remote field that is not null replaces the
  local value, zero included, with no comparison against it; the cap hours are clamped to
  1..24 and the ambient volume to 0..1; \<open>stopwatchCapOn\<close> is true unless the remote value
  is false; a text field replaces the local one when it is a non-empty string; the fruit
  collection is merged key by key, remote entries winning. A null numeric field, or a null
  or empty text field over a non-empty local one, leaves the local value (clamped, for the
  cap hours and the volume); where the local text is empty too, the built-in default is
  stored. Sessions, labels and the view are not touched.
\<close>

theorem profile_row_precedence:
  fixes r st
  defines "st' \<equiv> applyProfileRow r st"
  shows
  "(\<forall>x. weekly_goal_hours r = Some x \<longrightarrow> weeklyGoalHours (profile st') = x) \<and>
   (\<forall>x. island_xp_sec r = Some x \<longrightarrow> xpSec (island st') = x) \<and>
   (\<forall>x. garden_growth_sec r = Some x \<longrightarrow> growthSec (garden st') = x) \<and>
   (\<forall>x. garden_harvested_on_tree r = Some x \<longrightarrow> harvestedOnThisTree (garden st') = x) \<and>
   (\<forall>x. stopwatch_cap_hours r = Some x \<longrightarrow> stopwatchCapHours (profile st') = max 1 (min 24 x)) \<and>
   (\<forall>x. session_ambient_volume r = Some x \<longrightarrow> volume (sessionAmbient (profile st')) = max 0 (min 1 x)) \<and>
   stopwatchCapOn (profile st') = (stopwatch_cap_on r \<noteq> Some False) \<and>
   (\<forall>s. display_name r = Some s \<and> s \<noteq> [] \<longrightarrow> name (profile st') = s) \<and>
   (\<forall>s. row_theme r = Some s \<and> s \<noteq> [] \<longrightarrow> theme (profile st') = s) \<and>
   (\<forall>s. session_ambient_type r = Some s \<and> s \<noteq> [] \<longrightarrow> atype (sessionAmbient (profile st')) = s) \<and>
   (\<forall>s. garden_tree_type r = Some s \<and> s \<noteq> [] \<longrightarrow> treeType (garden st') = s) \<and>
   (\<forall>fc. fruit_collection r = Some fc \<longrightarrow>
      map_of (fruitCollection st') = map_of (fruitCollection st) ++ map_of (rev fc)) \<and>
   (weekly_goal_hours r = None \<longrightarrow> weeklyGoalHours (profile st') = weeklyGoalHours (profile st)) \<and>
   (island_xp_sec r = None \<longrightarrow> xpSec (island st') = xpSec (island st)) \<and>
   (garden_growth_sec r = None \<longrightarrow> growthSec (garden st') = growthSec (garden st)) \<and>
   (garden_harvested_on_tree r = None \<longrightarrow>
      harvestedOnThisTree (garden st') = harvestedOnThisTree (garden st)) \<and>
   (opt_str (display_name r) = [] \<and> name (profile st) \<noteq> [] \<longrightarrow>
      name (profile st') = name (profile st)) \<and>
   (opt_str (row_theme r) = [] \<and> theme (profile st) \<noteq> [] \<longrightarrow>
      theme (profile st') = theme (profile st)) \<and>
   (opt_str (session_ambient_type r) = [] \<and> atype (sessionAmbient (profile st)) \<noteq> [] \<longrightarrow>
      atype (sessionAmbient (profile st')) = atype (sessionAmbient (profile st))) \<and>
   (opt_str (garden_tree_type r) = [] \<and> treeType (garden st) \<noteq> [] \<longrightarrow>
      treeType (garden st') = treeType (garden st)) \<and>
   (fruit_collection r = None \<longrightarrow> fruitCollection st' = fruitCollection st) \<and>
   (stopwatch_cap_hours r = None \<longrightarrow>
      stopwatchCapHours (profile st') = max 1 (min 24 (stopwatchCapHours (profile st)))) \<and>
   (session_ambient_volume r = None \<longrightarrow>
      volume (sessionAmbient (profile st')) = max 0 (min 1 (volume (sessionAmbient (profile st))))) \<and>
   (opt_str (display_name r) = [] \<and> name (profile st) = [] \<longrightarrow>
      name (profile st') = ''Student'') \<and>
   (opt_str (row_theme r) = [] \<and> theme (profile st) = [] \<longrightarrow>
      theme (profile st') = ''midnight'') \<and>
   (opt_str (session_ambient_type r) = [] \<and> atype (sessionAmbient (profile st)) = [] \<longrightarrow>
      atype (sessionAmbient (profile st')) = ''off'') \<and>
   (opt_str (garden_tree_type r) = [] \<and> treeType (garden st) = [] \<longrightarrow>
      treeType (garden st') = ''Apple'') \<and>
   sessions st' = sessions st \<and> labels st' = labels st \<and> ui st' = ui st"
  unfolding st'_def
  by (simp add: applyProfileRow_def Let_def nullish_or_def str_or_def opt_str_def clamp_def clamp01_def map_of_spread)

theorem profile_row_precedence_witness:
  "name (profile (applyProfileRow row_full st_alice)) = ''Bob'' \<and>
   weeklyGoalHours (profile (applyProfileRow row_full st_alice)) = 0 \<and>
   stopwatchCapHours (profile (applyProfileRow row_full st_alice)) = 24 \<and>
   volume (sessionAmbient (profile (applyProfileRow row_full st_alice))) = 1 \<and>
   \<not> stopwatchCapOn (profile (applyProfileRow row_full st_alice)) \<and>
   xpSec (island (applyProfileRow row_full st_alice)) = 7200 \<and>
   treeType (garden (applyProfileRow row_full st_alice)) = ''Mango'' \<and>
   map_of (fruitCollection (applyProfileRow row_full st_alice)) ''Apple'' = Some 4 \<and>
   map_of (fruitCollection (applyProfileRow row_full st_alice)) ''Kiwi'' = Some 1 \<and>
   map_of (fruitCollection (applyProfileRow row_full st_alice)) ''Orange'' = Some 0 \<and>
   name (profile (applyProfileRow row_none st_alice)) = ''Alice'' \<and>
   weeklyGoalHours (profile (applyProfileRow row_none st_alice)) = 10 \<and>
   fruitCollection (applyProfileRow row_none st_alice) = fruitCollection st_alice"
proof -
  note full = profile_row_precedence [of row_full st_alice]
  note none = profile_row_precedence [of row_none st_alice]
  have rf: "display_name row_full = Some ''Bob''" "weekly_goal_hours row_full = Some 0"
    "stopwatch_cap_hours row_full = Some 30" "session_ambient_volume row_full = Some 2"
    "stopwatch_cap_on row_full = Some False" "island_xp_sec row_full = Some 7200"
    "garden_tree_type row_full = Some ''Mango''"
    "fruit_collection row_full = Some [(''Apple'', 4), (''Kiwi'', 1)]"
    by (simp_all add: row_full_def)
  have rn: "display_name row_none = None" "weekly_goal_hours row_none = None"
    "fruit_collection row_none = None"
    by (simp_all add: row_none_def)
  have sa: "name (profile st_alice) = ''Alice''" "weeklyGoalHours (profile st_alice) = 10"
    "map_of (fruitCollection st_alice) ''Orange'' = Some 0"
    by (simp_all add: st_alice_def defaultState_def)
  have a: "name (profile (applyProfileRow row_full st_alice)) = ''Bob''"
    using full rf(1) by simp
  have b: "weeklyGoalHours (profile (applyProfileRow row_full st_alice)) = 0"
    using full rf(2) by simp
  have c: "stopwatchCapHours (profile (applyProfileRow row_full st_alice)) = 24"
    using full rf(3) by simp
  have d: "volume (sessionAmbient (profile (applyProfileRow row_full st_alice))) = 1"
    using full rf(4) by simp
  have e: "\<not> stopwatchCapOn (profile (applyProfileRow row_full st_alice))"
    using full rf(5) by simp
  have f: "xpSec (island (applyProfileRow row_full st_alice)) = 7200"
    using full rf(6) by simp
  have g: "treeType (garden (applyProfileRow row_full st_alice)) = ''Mango''"
    using full rf(7) by simp
  have h: "map_of (fruitCollection (applyProfileRow row_full st_alice))
             = map_of (fruitCollection st_alice) ++ map_of (rev [(''Apple'', 4), (''Kiwi'', 1)])"
    using full rf(8) by simp
  have i: "name (profile (applyProfileRow row_none st_alice)) = ''Alice''"
    using none rn(1) sa(1) by (simp add: opt_str_def)
  have j: "weeklyGoalHours (profile (applyProfileRow row_none st_alice)) = 10"
    using none rn(2) sa(2) by simp
  have k: "fruitCollection (applyProfileRow row_none st_alice) = fruitCollection st_alice"
    using none rn(3) by simp
  show ?thesis using a b c d e f g i j k sa(3) by (simp add: h)
qed

subsection \<open>Durations of stored sessions\<close>

lemma valid_save:
  assumes "\<forall>s\<in>set (sessions (state w)). valid_duration s"
    and "snd (saveSession e a w) = Numbers w'"
  shows "\<forall>s\<in>set (sessions (state w')). valid_duration s"
proof (cases rule: saveSession_cases [where e = e and a = a and w = w])
  case rejected
  then show ?thesis using assms by simp
next
  case (stored x v)
  then have v: "v = w'" using assms(2) by simp
  have "valid_duration ((hd (sessions (state v)))\<lparr>durationSec := of_int (round x)\<rparr>)"
    using stored(2) by (simp add: valid_duration_def)
  then show ?thesis using stored(4) assms(1) v by (metis set_ConsD)
next
  case nan
  then show ?thesis using assms(2) by simp
qed

lemma valid_delete:
  "\<forall>s\<in>set (sessions (state w)). valid_duration s \<Longrightarrow>
   \<forall>s\<in>set (sessions (state (snd (deleteSessionById i w)))). valid_duration s"
  by (auto simp add: deleteSessionById_def Let_def sbDeleteSession_def saveState_def
      split: option.splits dest: in_set_takeD in_set_dropD)

lemma valid_reset:
  "\<forall>s\<in>set (sessions (state (resetStats w))). valid_duration s"
  by (simp add: resetStats_def Let_def sbUpsertSoon_def queueSyncSoon_def
      sbDeleteAllSessions_def saveState_def)

lemma valid_apply_op:
  assumes "\<forall>s\<in>set (sessions (state w)). valid_duration s"
    and "apply_op x w = Numbers w'"
  shows "\<forall>s\<in>set (sessions (state w')). valid_duration s"
proof (cases x)
  case (OpSave e a)
  with assms(2) have "snd (saveSession e a w) = Numbers w'" by simp
  with assms(1) show ?thesis by (rule valid_save)
next
  case (OpDelete i)
  with assms(2) have "w' = snd (deleteSessionById i w)" by simp
  then show ?thesis using valid_delete [OF assms(1), of i] by simp
next
  case OpReset
  with assms(2) have "w' = resetStats w" by simp
  then show ?thesis using valid_reset [of w] by simp
qed

lemma valid_trace:
  "\<forall>s\<in>set (sessions (state w)). valid_duration s \<Longrightarrow>
   \<forall>v\<in>set (trace ops w). \<forall>s\<in>set (sessions (state v)). valid_duration s"
proof (induction ops arbitrary: w)
  case Nil
  then show ?case by simp
next
  case (Cons x xs)
  show ?case
  proof (cases "apply_op x w")
    case HoldsNaN
    then show ?thesis by simp
  next
    case (Numbers w')
    have "\<forall>s\<in>set (sessions (state w')). valid_duration s"
      using Cons.prems Numbers by (rule valid_apply_op)
    with Cons.IH [of w'] show ?thesis using Numbers by simp
  qed
qed

lemma saved_duration:
  assumes "a_durationSec a = Val x" and "fst (saveSession e a w)"
  shows "\<exists>w'. snd (saveSession e a w) = Numbers w' \<and> valid_duration (hd (sessions (state w')))"
proof (cases rule: saveSession_cases [where e = e and a = a and w = w])
  case rejected
  then show ?thesis using assms(2) by simp
next
  case (stored y v)
  have "valid_duration ((hd (sessions (state v)))\<lparr>durationSec := of_int (round y)\<rparr>)"
    using stored(2) by (simp add: valid_duration_def)
  then have "valid_duration (hd (sessions (state v)))" using stored(4) by (metis list.sel(1))
  then show ?thesis using stored(3) by simp
next
  case nan
  then show ?thesis using assms(1) by simp
qed

lemma rowToLocalSession_duration: "durationSec (rowToLocalSession e st r) = duration_sec r"
  by (simp add: rowToLocalSession_def Let_def num_or_def)

lemma import_sessions:
  "sessions (state (importStateFromFile (Some (Backup b)) w)) = b_sessions b"
  by (simp add: importStateFromFile_def Let_def saveState_def queueSyncSoon_def sbSaveMeta_def sbSignedIn_def)

lemma applyProfileRow_frame:
  "sessions (applyProfileRow row st) = sessions st" "ui (applyProfileRow row st) = ui st"
  by (simp_all add: applyProfileRow_def Let_def)

lemma pullProfile_frame:
  "sessions (state (pullProfile r w)) = sessions (state w)"
  "ui (state (pullProfile r w)) = ui (state w)"
  "sb (pullProfile r w) = sb w"
  by (simp_all add: pullProfile_def Let_def applyProfileRow_frame
      split: response.splits option.splits)

lemma pullLabels_frame:
  "sessions (state (pullLabels e r w)) = sessions (state w)"
  "ui (state (pullLabels e r w)) = ui (state w)"
  "sb (pullLabels e r w) = sb w"
  by (simp_all add: pullLabels_def Let_def split: response.splits)

lemma rowToLocalSession_ui:
  "ui st = ui st' \<Longrightarrow> rowToLocalSession e st = rowToLocalSession e st'"
  by (rule ext) (simp add: rowToLocalSession_def Let_def)

lemma flushTombstones_syncing: "syncing (sb (flushTombstones r w)) = syncing (sb w)"
  by (simp add: flushTombstones_def sbDeleteLabelsNow_def sbSaveMeta_def Let_def
      split: prod.splits)

lemma fullSync_sessions:
  assumes "signedIn (sb w)" "\<not> syncing (sb w)" "\<not> forcePushOnce (sb w)"
    and "sesRes r = Data rows"
  shows "sessions (state (fullSync e r w)) =
     mergeSessions (ensureSessionIds e 0 (sessions (state w)))
       (map (rowToLocalSession e (state w)) rows)"
proof -
  let ?w3 = "flushTombstones r (ensureClientIds e (w\<lparr>sb := (sb w)\<lparr>syncing := True\<rparr>\<rparr>))"
  let ?w4 = "pullSessions e r (pullLabels e r (pullProfile r ?w3))"
  have f3: "\<not> forcePushOnce (sb ?w3)"
    using assms(3) by (simp add: flushTombstones_force ensureClientIds_frame)
  have f4: "\<not> forcePushOnce (sb ?w4)"
    using f3 by (simp add: pullSessions_def Let_def pullLabels_frame pullProfile_frame
        split: response.splits)
  have "state (fullSync e r w) = state ?w4"
    using assms(1,2) f3 f4
    by (simp add: fullSync_def Let_def sbSignedIn_def saveState_def sbSaveMeta_def pushAll_frame)
  moreover have "sessions (state ?w3) = ensureSessionIds e 0 (sessions (state w))"
    by (simp add: flushTombstones_state ensureClientIds_def Let_def)
  moreover have "ui (state ?w3) = ui (state w)"
    by (simp add: flushTombstones_state ensureClientIds_def Let_def)
  ultimately show ?thesis
    using rowToLocalSession_ui [of "state (pullLabels e r (pullProfile r ?w3))" "state w" e]
    by (simp add: pullSessions_Data [OF assms(4)] pullLabels_frame pullProfile_frame)
qed

lemma synced_sessions:
  "map durationSec (sessions (state (fullSync env0 remote1 world_sync))) = [1500, 5, 90]"
proof -
  have "ensureSessionIds env0 0 (sessions (state world_sync)) = sessions (state world_sync)"
    by (rule ensureSessionIds_id) (simp add: world_sync_fields sess_X_def sess_W_def)
  then have "sessions (state (fullSync env0 remote1 world_sync))
          = sessions (state (pullSessions env0 remote1 world_sync))"
    by (simp add: fullSync_sessions [OF world_sync_fields(4,5,6) remote1_fields(1)]
        pullSessions_Data [OF remote1_fields(1)])
  then show ?thesis
    by (simp add: pulled_sessions conv_rows sess_X_def sess_W_def)
qed

text \<open>
  Claim C7 says that no stored session is shorter than 60 seconds, however it was stored.
  A reconciliation pass stores a remote row of 5 seconds, and an import stores a backup
  session of 5 seconds: neither path checks the duration.
\<close>

theorem short_session_stored:
  "map durationSec (sessions (state (fullSync env0 remote1 world_sync))) = [1500, 5, 90] \<and>
   map durationSec (sessions (state (importStateFromFile (Some (Backup backup_short)) world0))) = [5]"
  by (simp add: synced_sessions import_sessions backup_short_def)

text \<open>
  Claim C7, as the source has it. The record that a successful \<open>saveSession\<close> puts in
  front, for a duration that is a finite number, has a whole-number duration of at least
  60; and after every operation of any sequence of \<open>saveSession\<close>, \<open>deleteSessionById\<close>
  and \<open>resetStats\<close> calls from the default state, every stored session has a
  whole-number duration of at least 60, where the trace has a world for every operation
  when the durations of the saves are finite numbers. The pull phase stores a remote row with the row's
  own \<open>duration_sec\<close>, so it keeps the bound when the local sessions and the rows have
  it; an import stores the sessions of the backup as they are.
\<close>

theorem stored_duration_invariant:
  "(state w = defaultState \<longrightarrow>
      (\<forall>v\<in>set (trace ops w). \<forall>s\<in>set (sessions (state v)). valid_duration s) \<and>
      ((\<forall>x\<in>set ops. number_op x) \<longrightarrow> length (trace ops w) = length ops)) \<and>
   (a_durationSec a = Val d \<and> fst (saveSession e a w) \<longrightarrow>
      (\<exists>w'. snd (saveSession e a w) = Numbers w' \<and>
            valid_duration (hd (sessions (state w'))))) \<and>
   durationSec (rowToLocalSession e st r) = duration_sec r \<and>
   (sesRes rm = Data rows \<and> (\<forall>s\<in>set (sessions (state w)). valid_duration s) \<and>
      (\<forall>x\<in>set rows. of_int \<lfloor>duration_sec x\<rfloor> = duration_sec x \<and> 60 \<le> duration_sec x) \<longrightarrow>
      (\<forall>s\<in>set (sessions (state (pullSessions e rm w))). valid_duration s)) \<and>
   sessions (state (importStateFromFile (Some (Backup b)) w)) = b_sessions b"
proof -
  have ledger: "state w = defaultState \<longrightarrow>
      (\<forall>v\<in>set (trace ops w). \<forall>s\<in>set (sessions (state v)). valid_duration s) \<and>
      ((\<forall>x\<in>set ops. number_op x) \<longrightarrow> length (trace ops w) = length ops)"
  proof
    assume "state w = defaultState"
    then have "\<forall>s\<in>set (sessions (state w)). valid_duration s" by (simp add: defaultState_def)
    then have "\<forall>v\<in>set (trace ops w). \<forall>s\<in>set (sessions (state v)). valid_duration s"
      by (rule valid_trace)
    then show "(\<forall>v\<in>set (trace ops w). \<forall>s\<in>set (sessions (state v)). valid_duration s) \<and>
      ((\<forall>x\<in>set ops. number_op x) \<longrightarrow> length (trace ops w) = length ops)"
      using trace_complete [of ops w] by blast
  qed
  have new: "a_durationSec a = Val d \<and> fst (saveSession e a w) \<longrightarrow>
      (\<exists>w'. snd (saveSession e a w) = Numbers w' \<and>
            valid_duration (hd (sessions (state w'))))"
    using saved_duration [of a d e w] by blast
  have pull: "sesRes rm = Data rows \<and> (\<forall>s\<in>set (sessions (state w)). valid_duration s) \<and>
      (\<forall>x\<in>set rows. of_int \<lfloor>duration_sec x\<rfloor> = duration_sec x \<and> 60 \<le> duration_sec x) \<longrightarrow>
      (\<forall>s\<in>set (sessions (state (pullSessions e rm w))). valid_duration s)"
  proof (intro impI ballI)
    fix s
    assume h: "sesRes rm = Data rows \<and> (\<forall>s\<in>set (sessions (state w)). valid_duration s) \<and>
      (\<forall>x\<in>set rows. of_int \<lfloor>duration_sec x\<rfloor> = duration_sec x \<and> 60 \<le> duration_sec x)"
      and s: "s \<in> set (sessions (state (pullSessions e rm w)))"
    from h have d: "sesRes rm = Data rows" by simp
    from s have "s \<in> set (mergeSessions (sessions (state w))
                     (map (rowToLocalSession e (state w)) rows))"
      by (simp add: pullSessions_Data [OF d])
    then have "s \<in> set (sessions (state w)) \<union> set (map (rowToLocalSession e (state w)) rows)"
      by (rule subsetD [OF mergeSessions_set])
    then consider "s \<in> set (sessions (state w))"
      | "s \<in> rowToLocalSession e (state w) ` set rows" by auto
    then consider "s \<in> set (sessions (state w))"
      | x where "x \<in> set rows" "s = rowToLocalSession e (state w) x" by blast
    then show "valid_duration s"
    proof cases
      case 1
      then show ?thesis using h by simp
    next
      case 2
      then show ?thesis using h by (simp add: valid_duration_def rowToLocalSession_duration)
    qed
  qed
  show ?thesis
    by (intro conjI ledger new pull rowToLocalSession_duration import_sessions)
qed

theorem stored_duration_invariant_witness:
  "state world0 = defaultState \<and>
   list_all number_op ops0 \<and>
   list_all (\<lambda>v. list_all valid_duration (sessions (state v))) (trace ops0 world0) \<and>
   map (\<lambda>v. length (sessions (state v))) (trace ops0 world0) = [1, 1, 0, 1, 0] \<and>
   a_durationSec (args0 1500) = Val 1500 \<and>
   saveSession env0 (args0 1500) world0 = (True, Numbers world1) \<and>
   valid_duration (hd (sessions (state world1))) \<and>
   list_all valid_duration (sessions (state (pullSessions env0 remote2 world_sync))) \<and>
   length (sessions (state (pullSessions env0 remote2 world_sync))) = 3"
proof -
  note ledger = stored_duration_invariant [where w = world0 and ops = ops0 and e = env0
      and a = "args0 1500" and d = 1500]
  note pull = stored_duration_invariant [where w = world_sync and rm = remote2
      and rows = "[row_V]" and e = env0]
  have d: "state world0 = defaultState" by (simp add: world0_def)
  have v: "a_durationSec (args0 1500) = Val 1500" by (simp add: args0_def)
  have r2: "sesRes remote2 = Data [row_V]" by (simp add: remote2_def)
  have loc: "\<forall>s\<in>set (sessions (state world_sync)). valid_duration s"
    by (simp add: world_sync_fields valid_duration_def sess_X_def sess_W_def)
  have rows: "\<forall>x\<in>set [row_V]. of_int \<lfloor>duration_sec x\<rfloor> = duration_sec x \<and> 60 \<le> duration_sec x"
    by (simp add: row_V_def)
  have a: "list_all (\<lambda>v. list_all valid_duration (sessions (state v))) (trace ops0 world0)"
    using ledger d by (simp add: list_all_iff)
  have b: "valid_duration (hd (sessions (state world1)))"
    using ledger v by (simp add: world1_eq)
  have c: "list_all valid_duration (sessions (state (pullSessions env0 remote2 world_sync)))"
    using pull r2 loc rows by (simp add: list_all_iff)
  have n: "map (\<lambda>v. length (sessions (state v))) (trace ops0 world0) = [1, 1, 0, 1, 0]"
    using trace_ops0 [THEN arg_cong, of "map snd"] by (simp add: comp_def)
  have m: "length (sessions (state (pullSessions env0 remote2 world_sync))) = 3"
    by (simp add: pullSessions_Data [OF r2] world_sync_fields mergeSessions_def map_from_def
        Let_def session_key_def str_or_def rowToLocalSession_def row_V_def sess_X_def sess_W_def)
  have o: "list_all number_op ops0" using number_ops0 by (simp add: list_all_iff)
  show ?thesis using d o a n v world1_eq b c m by blast
qed

section \<open>Properties of the load-time merge\<close>

lemma clamp_idem: "a \<le> b \<Longrightarrow> clamp (clamp n a b) a b = clamp n a b"
  by (simp add: clamp_def)

lemma clamp01_idem: "clamp01 (clamp01 n) = clamp01 n"
  by (simp add: clamp01_def clamp_idem)

lemma fld_Some: "fld (Some s) f d = nullish_or (f s) d"
  by (simp add: fld_def sect_def)

lemma nullish_Some: "nullish_or (Some x) d = x"
  by (simp add: nullish_or_def)

lemma loadProfile_to_blob:
  "loadProfile e' (profile_b (to_blob s)) =
     (profile (core s))\<lparr> theme := theme (loadProfile e' (profile_b (to_blob s))),
        stopwatchCapHours := clamp (stopwatchCapHours (profile (core s))) 1 24 \<rparr>"
  by (simp add: loadProfile_def to_blob_def Let_def fld_Some nullish_Some)

lemma theme_allowed: "theme (loadProfile e pb) \<in> set allowedThemes"
  by (simp add: loadProfile_def Let_def allowedThemes_def)

lemma theme_idem:
  "t \<in> set allowedThemes \<Longrightarrow>
   (let theme0 = str_or t ''midnight'' in if theme0 \<in> set allowedThemes then theme0 else ''midnight'') = t"
  by (auto simp add: Let_def str_or_def allowedThemes_def)

lemma loadProfile_idem:
  "loadProfile e' (profile_b (to_blob (fst (mergeDefaults e bg X))))
     = profile (core (fst (mergeDefaults e bg X)))"
proof -
  let ?s = "fst (mergeDefaults e bg X)"
  have p: "profile (core ?s) = loadProfile e (profile_b X)"
    by (simp add: mergeDefaults_def Let_def loadCore_def)
  have "theme (loadProfile e' (profile_b (to_blob ?s))) =
      (let theme0 = str_or (theme (profile (core ?s))) ''midnight''
       in if theme0 \<in> set allowedThemes then theme0 else ''midnight'')"
    by (simp add: loadProfile_def [of e'] to_blob_def Let_def fld_Some nullish_Some)
  also have "\<dots> = theme (profile (core ?s))"
    unfolding p using theme_allowed by (rule theme_idem)
  finally have t: "theme (loadProfile e' (profile_b (to_blob ?s))) = theme (profile (core ?s))" .
  have c: "clamp (stopwatchCapHours (profile (core ?s))) 1 24 = stopwatchCapHours (profile (core ?s))"
    by (simp add: p loadProfile_def Let_def clamp_idem)
  show ?thesis
    by (subst loadProfile_to_blob) (simp add: t c)
qed

lemma normalize_idem: "normalizeRewardMode (str_or (normalizeRewardMode m) ''island'') = normalizeRewardMode m"
  by (simp add: normalizeRewardMode_def str_or_def)

lemma loadWorldView_idem:
  "loadWorldView (profile_b (to_blob (fst (mergeDefaults e bg X))))
                 (ui_b (to_blob (fst (mergeDefaults e bg X))))
     = worldView (ui (core (fst (mergeDefaults e bg X))))"
proof -
  let ?s = "fst (mergeDefaults e bg X)"
  have w: "worldView (ui (core ?s)) = loadWorldView (profile_b X) (ui_b X)"
    by (simp add: mergeDefaults_def Let_def loadCore_def)
  have "loadWorldView (profile_b (to_blob ?s)) (ui_b (to_blob ?s))
          = normalizeRewardMode (str_or (worldView (ui (core ?s))) ''island'')"
    by (simp add: loadWorldView_def to_blob_def Let_def fld_Some nullish_Some)
  also have "\<dots> = worldView (ui (core ?s))"
    unfolding w by (simp add: loadWorldView_def Let_def normalize_idem)
  finally show ?thesis .
qed

lemma uid_nonempty: "uid p e i \<noteq> []"
  by (simp add: uid_def)

lemma take80_blob:
  "take 80 (if take 80 x \<noteq> [] then take 80 x else []) = take 80 x"
  by simp

lemma reload_one:
  assumes "task_id x \<noteq> []" and "task_createdTs x = Some v" and "v \<noteq> 0"
    and "task_text x = take 80 y"
  shows "loadTasks e' j (task_blob x # bs) = x # loadTasks e' (Suc j) bs"
  using assms by (simp add: task_blob_def)

lemma loadTasks_idem:
  "list_all task_fields_ok ts \<Longrightarrow> now e \<noteq> 0 \<Longrightarrow>
   loadTasks e' j (map task_blob (loadTasks e i ts)) = loadTasks e i ts"
proof (induction e i ts arbitrary: j rule: loadTasks.induct)
  case (1 e i)
  then show ?case by simp
next
  case (2 e i ts)
  then show ?case by simp
next
  case (3 e i t ts)
  let ?x = "\<lparr> task_id = (if rs_truthy (r_id t) then rs_string (r_id t) else uid ''id'' e i),
       task_text = take 80 (if rs_truthy (r_text t) then rs_string (r_text t) else []),
       task_done = r_done t,
       task_createdTs = (if rn_truthy (r_createdTs t) then rn_number (r_createdTs t)
                         else Some (now e)) \<rparr>"
  have rest: "loadTasks e' (Suc j) (map task_blob (loadTasks e (Suc i) ts)) = loadTasks e (Suc i) ts"
    using "3.prems" by (intro "3.IH") simp_all
  have i: "task_id ?x \<noteq> []"
    using "3.prems"(1) by (simp add: uid_nonempty)
  obtain v where v: "task_createdTs ?x = Some v" "v \<noteq> 0"
    using "3.prems" by (cases "rn_truthy (r_createdTs t)") (auto split: option.splits)
  have t: "task_text ?x = take 80 (if rs_truthy (r_text t) then rs_string (r_text t) else [])"
    by simp
  have "loadTasks e' j (map task_blob (loadTasks e i (TaskObject t # ts)))
          = loadTasks e' j (task_blob ?x # map task_blob (loadTasks e (Suc i) ts))"
    by simp
  also have "\<dots> = ?x # loadTasks e' (Suc j) (map task_blob (loadTasks e (Suc i) ts))"
    using i v t by (rule reload_one)
  also have "\<dots> = loadTasks e i (TaskObject t # ts)"
    by (simp add: rest)
  finally show ?case .
qed

lemma dropWhile_self: "xs = [] \<or> \<not> P (hd xs) \<Longrightarrow> dropWhile P xs = xs"
  by (cases xs) auto

lemma hd_dropWhile_not: "dropWhile P xs \<noteq> [] \<Longrightarrow> \<not> P (hd (dropWhile P xs))"
  by (rule hd_dropWhile)

lemma trim_idem: "trim (trim s) = trim s"
proof -
  let ?a = "dropWhile is_space s"
  let ?b = "dropWhile is_space (rev ?a)"
  have ta: "rev ?a = takeWhile is_space (rev ?a) @ ?b" by simp
  then have a: "?a = rev ?b @ rev (takeWhile is_space (rev ?a))"
    by (metis rev_append rev_rev_ident)
  have front: "dropWhile is_space (rev ?b) = rev ?b"
  proof (cases "?b = []")
    case True
    then have emp: "dropWhile is_space (rev (dropWhile is_space s)) = []" .
    show ?thesis by (simp only: emp rev.simps dropWhile.simps)
  next
    case False
    then have ne: "rev ?b \<noteq> []" by simp
    then have "hd (rev ?b) = hd ?a" using a by (metis hd_append2)
    moreover have "?a \<noteq> []" using a ne by (metis append_is_Nil_conv)
    ultimately have "\<not> is_space (hd (rev ?b))" using hd_dropWhile [of is_space s] by simp
    then show ?thesis by (intro dropWhile_self) simp
  qed
  have rear: "dropWhile is_space ?b = ?b"
    using hd_dropWhile [of is_space "rev ?a"] by (intro dropWhile_self) blast
  show ?thesis
    by (simp add: trim_def front rear)
qed

lemma trim_no_space: "\<forall>c\<in>set r. \<not> is_space c \<Longrightarrow> trim r = r"
proof -
  assume h: "\<forall>c\<in>set r. \<not> is_space c"
  then have "dropWhile is_space r = r" by (intro dropWhile_self) (cases r, auto)
  moreover have "dropWhile is_space (rev r) = rev r"
    using h by (intro dropWhile_self) (cases "rev r", auto simp add: hd_rev last_in_set)
  ultimately show ?thesis by (simp add: trim_def)
qed

lemma idchar_not_space: "is_idchar c \<Longrightarrow> \<not> is_space c"
  by (auto simp add: is_idchar_def is_space_def Let_def)

lemma capture_chars: "capture s = Some r \<Longrightarrow> r \<noteq> [] \<and> (\<forall>c\<in>set r. is_idchar c)"
  by (auto simp add: capture_def Let_def split: if_splits dest: set_takeWhileD)

lemma search_chars: "search pat s = Some r \<Longrightarrow> r \<noteq> [] \<and> (\<forall>c\<in>set r. is_idchar c)"
proof (induction pat s rule: search.induct)
  case (1 pat)
  then show ?case by (auto simp add: match_here_def split: option.splits dest: capture_chars)
next
  case (2 pat c cs)
  then show ?case
    by (auto simp add: match_here_def split: option.splits dest: capture_chars)
qed

lemma extract_chars: "\<forall>c\<in>set (extractVideoId u). is_idchar c"
proof -
  have "opt_str (search pat u) = [] \<or> (\<forall>c\<in>set (opt_str (search pat u)). is_idchar c)" for pat
    by (cases "search pat u") (auto simp add: opt_str_def dest: search_chars)
  then show ?thesis
    by (auto simp add: extractVideoId_def Let_def str_or_def)
qed

lemma update_append_pre:
  "k \<notin> fst ` set pre \<Longrightarrow> AList.update k v (pre @ rest) = pre @ AList.update k v rest"
  by (induction pre) auto

lemma update_absent: "k \<notin> fst ` set pre \<Longrightarrow> AList.update k v pre = pre @ [(k, v)]"
  by (induction pre) auto

lemma spread_onto_prefix:
  "distinct (map fst m) \<Longrightarrow> fst ` set pre \<inter> fst ` set m = {} \<Longrightarrow>
   prefix (map fst al) (map fst m) \<Longrightarrow> spread (pre @ al) m = pre @ m"
proof (induction m arbitrary: pre al)
  case Nil
  then show ?case by (simp add: spread_def)
next
  case (Cons x m)
  obtain k v where x: "x = (k, v)" by (cases x)
  have kpre: "k \<notin> fst ` set pre" using Cons.prems(2) x by auto
  have km: "k \<notin> fst ` set m" using Cons.prems(1) x by auto
  have d: "distinct (map fst m)" using Cons.prems(1) by simp
  have disj: "fst ` set (pre @ [(k, v)]) \<inter> fst ` set m = {}"
    using Cons.prems(2) km x by auto
  show ?case
  proof (cases al)
    case Nil
    have "spread (pre @ al) (x # m) = spread (pre @ [(k, v)]) m"
      using kpre by (simp add: spread_def x Nil update_absent)
    also have "\<dots> = spread ((pre @ [(k, v)]) @ []) m" by simp
    also have "\<dots> = (pre @ [(k, v)]) @ m"
      using d disj by (rule Cons.IH) simp
    finally show ?thesis by (simp add: x)
  next
    case (Cons y al')
    obtain v0 where y: "y = (k, v0)" using Cons.prems(3) x Cons by (cases y) auto
    have p: "prefix (map fst al') (map fst m)" using Cons.prems(3) x Cons y by simp
    have "spread (pre @ al) (x # m) = spread ((pre @ [(k, v)]) @ al') m"
      using kpre by (simp add: spread_def x Cons y update_append_pre)
    also have "\<dots> = (pre @ [(k, v)]) @ m"
      using d disj p by (rule Cons.IH)
    finally show ?thesis by (simp add: x)
  qed
qed

lemma prefix_keys_update: "prefix (map fst al) (map fst (AList.update k v al))"
  by (simp add: update_keys)

lemma prefix_keys_spread: "prefix (map fst a) (map fst (spread a b))"
  unfolding spread_def
proof (induction b arbitrary: a)
  case Nil
  then show ?case by simp
next
  case (Cons x b)
  obtain k v where x: "x = (k, v)" by (cases x)
  have "prefix (map fst a) (map fst (AList.update k v a))" by (rule prefix_keys_update)
  also have "prefix \<dots> (map fst (fold (\<lambda>(k, v). AList.update k v) b (AList.update k v a)))"
    by (rule Cons.IH)
  finally show ?case by (simp add: x)
qed

lemma spread_idem: "distinct (map fst a) \<Longrightarrow> spread a (spread a b) = spread a b"
  using spread_onto_prefix [of "spread a b" "[]" a]
  by (simp add: distinct_spread prefix_keys_spread)

lemma loadSound_idem:
  "loadSound (Some (sound_blob (loadSound c d))) d' = loadSound c d"
  by (simp add: loadSound_def sound_blob_def fld_Some nullish_Some clamp01_idem)

lemma default_vid_trim: "trim ''CFGLoQIhmow'' = ''CFGLoQIhmow''"
  by (simp add: trim_def is_space_def)

lemma vid_stable:
  "lofiVideoId (loadAudio ab) \<noteq> [] \<and> trim (lofiVideoId (loadAudio ab)) = lofiVideoId (loadAudio ab)"
proof -
  define vid0 where "vid0 = trim (str_or (fld ab lofiVideoId_b (lofiVideoId defaultAudio)) [])"
  define rawUrl where "rawUrl = trim (str_or (fld ab lofiEmbedUrl_b (lofiEmbedUrl defaultAudio)) [])"
  define vid1 where "vid1 = (if vid0 = [] \<and> rawUrl \<noteq> [] then extractVideoId rawUrl else vid0)"
  have v: "lofiVideoId (loadAudio ab) = (if vid1 = [] then ''CFGLoQIhmow'' else vid1)"
    by (simp add: loadAudio_def Let_def vid0_def rawUrl_def vid1_def)
  have t0: "trim vid0 = vid0" unfolding vid0_def by (rule trim_idem)
  have te: "trim (extractVideoId rawUrl) = extractVideoId rawUrl"
    using extract_chars idchar_not_space by (intro trim_no_space) blast
  have t1: "trim vid1 = vid1" unfolding vid1_def using t0 te by simp
  show ?thesis
  proof (cases "vid1 = []")
    case True
    then show ?thesis by (simp add: v default_vid_trim)
  next
    case False
    then show ?thesis by (simp add: v t1)
  qed
qed

lemma loadAudio_reload:
  assumes "vid \<noteq> []" "trim vid = vid"
  shows "loadAudio (Some
          \<lparr> master_b = Some m,
            ambient_b = Some
              \<lparr> fire_b = Some (sound_blob f), wind_b = Some (sound_blob w),
                sea_b = Some (sound_blob s), nature_b = Some (sound_blob n) \<rparr>,
            lofiVideoId_b = Some vid, lofiEmbedUrl_b = Some u,
            videoBgOn_b = Some b, videoBgOpacity_b = Some o1,
            videoOverlayOpacity_b = Some o2,
            ytVolume_b = Some y, isPlaying_b = Some p \<rparr>) =
     \<lparr> master = clamp01 m,
       ambient_s = \<lparr> fire = loadSound (Some (sound_blob f)) 0.45,
                     wind = loadSound (Some (sound_blob w)) 0.35,
                     sea = loadSound (Some (sound_blob s)) 0.35,
                     nature = loadSound (Some (sound_blob n)) 0.35 \<rparr>,
       lofiVideoId = vid, lofiEmbedUrl = embedUrl vid, videoBgOn = b,
       videoBgOpacity = clamp01 o1, videoOverlayOpacity = clamp01 o2,
       ytVolume = clamp y 0 100, isPlaying = False \<rparr>"
  using assms
  by (simp add: loadAudio_def Let_def fld_Some nullish_Some sect_def str_or_def defaultAudio_def)

lemma loadAudio_idem:
  "loadAudio (audio_b (to_blob s)) = audio s" if "audio s = loadAudio ab"
proof -
  have blob: "audio_b (to_blob s) = Some
          \<lparr> master_b = Some (master (audio s)),
            ambient_b = Some
              \<lparr> fire_b = Some (sound_blob (fire (ambient_s (audio s)))),
                wind_b = Some (sound_blob (wind (ambient_s (audio s)))),
                sea_b = Some (sound_blob (sea (ambient_s (audio s)))),
                nature_b = Some (sound_blob (nature (ambient_s (audio s)))) \<rparr>,
            lofiVideoId_b = Some (lofiVideoId (audio s)),
            lofiEmbedUrl_b = Some (lofiEmbedUrl (audio s)),
            videoBgOn_b = Some (videoBgOn (audio s)),
            videoBgOpacity_b = Some (videoBgOpacity (audio s)),
            videoOverlayOpacity_b = Some (videoOverlayOpacity (audio s)),
            ytVolume_b = Some (ytVolume (audio s)), isPlaying_b = Some (isPlaying (audio s)) \<rparr>"
    by (simp add: to_blob_def Let_def)
  have vid: "lofiVideoId (audio s) \<noteq> []" "trim (lofiVideoId (audio s)) = lofiVideoId (audio s)"
    using vid_stable [of ab] by (simp_all add: that)
  have fields:
    "master (audio s) = clamp01 (fld ab master_b (master defaultAudio))"
    "fire (ambient_s (audio s)) = loadSound (sect (sect ab ambient_b) fire_b) 0.45"
    "wind (ambient_s (audio s)) = loadSound (sect (sect ab ambient_b) wind_b) 0.35"
    "sea (ambient_s (audio s)) = loadSound (sect (sect ab ambient_b) sea_b) 0.35"
    "nature (ambient_s (audio s)) = loadSound (sect (sect ab ambient_b) nature_b) 0.35"
    "lofiEmbedUrl (audio s) = embedUrl (lofiVideoId (audio s))"
    "videoBgOpacity (audio s) = clamp01 (fld ab videoBgOpacity_b 0.22)"
    "videoOverlayOpacity (audio s) = clamp01 (fld ab videoOverlayOpacity_b 0.55)"
    "ytVolume (audio s) = clamp (fld ab ytVolume_b 60) 0 100"
    "isPlaying (audio s) = False"
    by (simp_all add: that loadAudio_def Let_def defaultAudio_def)
  have "loadAudio (audio_b (to_blob s)) =
     \<lparr> master = master (audio s),
       ambient_s = \<lparr> fire = fire (ambient_s (audio s)), wind = wind (ambient_s (audio s)),
                     sea = sea (ambient_s (audio s)), nature = nature (ambient_s (audio s)) \<rparr>,
       lofiVideoId = lofiVideoId (audio s), lofiEmbedUrl = lofiEmbedUrl (audio s),
       videoBgOn = videoBgOn (audio s),
       videoBgOpacity = videoBgOpacity (audio s),
       videoOverlayOpacity = videoOverlayOpacity (audio s),
       ytVolume = ytVolume (audio s), isPlaying = isPlaying (audio s) \<rparr>"
    unfolding blob loadAudio_reload [OF vid]
    by (simp add: fields loadSound_idem clamp01_idem clamp_idem)
  then show ?thesis by simp
qed

lemma loaded_fields:
  "core (fst (mergeDefaults e bg X)) = loadCore e X"
  "version (fst (mergeDefaults e bg X)) = nullish_or (version_b X) 3"
  "lastYearViewed (fst (mergeDefaults e bg X)) = fld (profile_b X) pb_lastYearViewed (year e)"
  "defaultRewardMode (fst (mergeDefaults e bg X)) = sect (profile_b X) pb_defaultRewardMode"
  "tasks (fst (mergeDefaults e bg X)) = loadTasks e 0 (nullish_or (tasks_b X) [])"
  "audio (fst (mergeDefaults e bg X)) = loadAudio (audio_b X)"
  "labelsView (fst (mergeDefaults e bg X)) =
     (if fld (labels_b X) view_b ''grid'' = ''list'' then ''list'' else ''grid'')"
  "labelsSort (fst (mergeDefaults e bg X)) =
     (if fld (labels_b X) sort_b ''name'' = ''date'' then ''date'' else ''name'')"
  by (simp_all add: mergeDefaults_def Let_def)

lemma distinct_default_fruit: "distinct (map fst (fruitCollection defaultState))"
  by (simp add: defaultState_def)

lemma loadCore_idem:
  "loadCore e' (to_blob (fst (mergeDefaults e bg X))) = core (fst (mergeDefaults e bg X))"
proof -
  let ?s = "fst (mergeDefaults e bg X)"
  have c: "core ?s = loadCore e X" by (rule loaded_fields)
  have fc: "fruitCollection (core ?s) = spread (fruitCollection defaultState) (nullish_or (fruitCollection_b X) [])"
    by (simp add: c loadCore_def)
  have "loadCore e' (to_blob ?s) =
     \<lparr> profile = loadProfile e' (profile_b (to_blob ?s)),
       ui = \<lparr> worldView = loadWorldView (profile_b (to_blob ?s)) (ui_b (to_blob ?s)) \<rparr>,
       sessions = sessions (core ?s),
       island = island (core ?s),
       garden = garden (core ?s),
       fruitCollection = spread (fruitCollection defaultState) (fruitCollection (core ?s)),
       labels = labels (core ?s) \<rparr>"
    by (simp add: loadCore_def [of e'] to_blob_def Let_def fld_Some nullish_Some)
  also have "\<dots> = core ?s"
    unfolding loadProfile_idem loadWorldView_idem
    by (simp add: fc spread_idem distinct_default_fruit)
  finally show ?thesis .
qed

lemma load_Json:
  "fst (mergeDefaults e bg B) =
     \<lparr> core = loadCore e B,
       version = nullish_or (version_b B) 3,
       lastYearViewed = fld (profile_b B) pb_lastYearViewed (year e),
       defaultRewardMode = sect (profile_b B) pb_defaultRewardMode,
       tasks = loadTasks e 0 (nullish_or (tasks_b B) []),
       audio = loadAudio (audio_b B),
       pomodoro =
         \<lparr> focusMin = fld (pomodoro_b B) focusMin_b 25,
           breakMin = fld (pomodoro_b B) breakMin_b 5,
           longBreakMin = fld (pomodoro_b B) longBreakMin_b 15,
           longEvery = fld (pomodoro_b B) longEvery_b 4 \<rparr>,
       labelsView = (if fld (labels_b B) view_b ''grid'' = ''list'' then ''list'' else ''grid''),
       labelsSort = (if fld (labels_b B) sort_b ''name'' = ''date'' then ''date'' else ''name''),
       habits =
         \<lparr> habit_items = fld (habits_b B) habit_items_b [],
           completions = fld (habits_b B) completions_b [] \<rparr> \<rparr>"
  by (simp add: mergeDefaults_def Let_def)

lemma to_blob_fields:
  "nullish_or (version_b (to_blob s)) 3 = version s"
  "fld (profile_b (to_blob s)) pb_lastYearViewed y = lastYearViewed s"
  "sect (profile_b (to_blob s)) pb_defaultRewardMode = defaultRewardMode s"
  "nullish_or (tasks_b (to_blob s)) [] = map task_blob (tasks s)"
  "fld (pomodoro_b (to_blob s)) focusMin_b a = focusMin (pomodoro s)"
  "fld (pomodoro_b (to_blob s)) breakMin_b b = breakMin (pomodoro s)"
  "fld (pomodoro_b (to_blob s)) longBreakMin_b c = longBreakMin (pomodoro s)"
  "fld (pomodoro_b (to_blob s)) longEvery_b d = longEvery (pomodoro s)"
  "fld (labels_b (to_blob s)) view_b v = labelsView s"
  "fld (labels_b (to_blob s)) sort_b v = labelsSort s"
  "fld (habits_b (to_blob s)) habit_items_b [] = habit_items (habits s)"
  "fld (habits_b (to_blob s)) completions_b [] = completions (habits s)"
  by (simp_all add: to_blob_def Let_def fld_Some nullish_Some sect_def)

lemma loadState_reload:
  assumes "list_all task_fields_ok (nullish_or (tasks_b X) [])" and "now e \<noteq> 0"
  shows "fst (mergeDefaults e' bg' (to_blob (fst (mergeDefaults e bg X))))
           = fst (mergeDefaults e bg X)"
proof -
  let ?s = "fst (mergeDefaults e bg X)"
  have t: "loadTasks e' 0 (map task_blob (tasks ?s)) = tasks ?s"
    unfolding loaded_fields using assms by (rule loadTasks_idem)
  have a: "loadAudio (audio_b (to_blob ?s)) = audio ?s"
    by (rule loadAudio_idem) (rule loaded_fields)
  have v: "(if labelsView ?s = ''list'' then ''list'' else ''grid'') = labelsView ?s"
    "(if labelsSort ?s = ''date'' then ''date'' else ''name'') = labelsSort ?s"
    by (simp_all add: loaded_fields(7,8))
  show ?thesis
    by (subst load_Json) (simp only: to_blob_fields loadCore_idem t a v, simp)
qed

lemma load_empty: "fst (mergeDefaults e bg blob_empty) = defaultStateFull e"
proof -
  have c: "loadCore e blob_empty = defaultState"
    by (simp add: loadCore_def blob_empty_def loadProfile_def loadWorldView_def Let_def fld_def
        sect_def nullish_or_def opt_str_def str_or_def allowedThemes_def normalizeRewardMode_def
        clamp_def spread_def defaultState_def)
  have a: "loadAudio (audio_b blob_empty) = defaultAudio"
    by (simp add: loadAudio_def blob_empty_def loadSound_def Let_def fld_def sect_def
        nullish_or_def str_or_def clamp_def clamp01_def defaultAudio_def default_vid_trim
        embedUrl_def)
  have r: "nullish_or (version_b blob_empty) 3 = 3"
    "fld (profile_b blob_empty) pb_lastYearViewed (year e) = year e"
    "sect (profile_b blob_empty) pb_defaultRewardMode = None"
    "nullish_or (tasks_b blob_empty) [] = []"
    "fld (pomodoro_b blob_empty) focusMin_b 25 = 25"
    "fld (pomodoro_b blob_empty) breakMin_b 5 = 5"
    "fld (pomodoro_b blob_empty) longBreakMin_b 15 = 15"
    "fld (pomodoro_b blob_empty) longEvery_b 4 = 4"
    "fld (labels_b blob_empty) view_b ''grid'' = ''grid''"
    "fld (labels_b blob_empty) sort_b ''name'' = ''name''"
    "fld (habits_b blob_empty) habit_items_b [] = []"
    "fld (habits_b blob_empty) completions_b [] = []"
    by (simp_all add: blob_empty_def fld_def sect_def nullish_or_def)
  show ?thesis
    unfolding load_Json c a r defaultStateFull_def by simp
qed

lemma reload_bg: "snd (mergeDefaults e bg (to_blob s)) = bg"
  by (simp add: mergeDefaults_def Let_def to_blob_def sect_def opt_str_def)

text \<open>
  Claim C8, as the source has it. For every blob whose task entries have fields as the
  application writes them (no truthy identifier that \<open>String\<close> turns into the empty
  string, no truthy creation time that \<open>Number\<close> turns into zero or \<open>NaN\<close>), merging the
  result of a merge again, at any later time and with any identifiers generated, gives the
  same state, and \<open>loadState\<close> returns it without an error; loading what was saved of the
  default state gives the default state; and a blob that is missing or does not parse
  gives the default state, without an error.
\<close>

theorem loadState_idempotent:
  assumes "list_all task_fields_ok (nullish_or (tasks_b X) [])" and "now e \<noteq> 0"
  shows "fst (mergeDefaults e' bg' (to_blob (fst (mergeDefaults e bg X))))
           = fst (mergeDefaults e bg X) \<and>
         loadState e bg (Json X) = Inr (mergeDefaults e bg X) \<and>
         loadState e' bg' (Json (to_blob (fst (mergeDefaults e bg X))))
           = Inr (fst (mergeDefaults e bg X), bg') \<and>
         loadState e' bg' (Json (to_blob (defaultStateFull e))) = Inr (defaultStateFull e, bg') \<and>
         loadState e bg Unparsable = Inr (defaultStateFull e, bg) \<and>
         loadState e bg NoItem = Inr (defaultStateFull e, bg)"
proof -
  have idem: "fst (mergeDefaults e' bg' (to_blob (fst (mergeDefaults e bg X))))
           = fst (mergeDefaults e bg X)"
    using assms by (rule loadState_reload)
  have "list_all task_fields_ok (nullish_or (tasks_b blob_empty) [])"
    by (simp add: blob_empty_def nullish_or_def)
  then have "fst (mergeDefaults e' bg' (to_blob (fst (mergeDefaults e bg blob_empty))))
           = fst (mergeDefaults e bg blob_empty)"
    using assms(2) by (rule loadState_reload)
  then have dflt: "fst (mergeDefaults e' bg' (to_blob (defaultStateFull e))) = defaultStateFull e"
    by (simp only: load_empty)
  have bad: "loadState e bg Unparsable = Inr (defaultStateFull e, bg)"
    "loadState e bg NoItem = Inr (defaultStateFull e, bg)"
    by (simp_all add: loadState_def)
  have js: "loadState e bg (Json X) = Inr (mergeDefaults e bg X)"
    by (simp add: loadState_def)
  have again: "loadState e' bg' (Json (to_blob (fst (mergeDefaults e bg X))))
           = Inr (fst (mergeDefaults e bg X), bg')"
    using idem by (simp add: loadState_def prod_eq_iff reload_bg)
  have saved_default: "loadState e' bg' (Json (to_blob (defaultStateFull e)))
           = Inr (defaultStateFull e, bg')"
    using dflt by (simp add: loadState_def prod_eq_iff reload_bg)
  show ?thesis by (intro conjI idem js again saved_default bad)
qed

lemma tasks_array_id:
  "tasks (fst (mergeDefaults env0 None blob_array_id)) =
     [\<lparr> task_id = [], task_text = ''read'', task_done = False,
        task_createdTs = Some 1700000000000 \<rparr>]"
  by (simp add: loaded_fields blob_array_id_def blob_empty_def nullish_or_def)

text \<open>
  Claim C8 says that the merge with defaults is idempotent for every blob. A task whose
  identifier is the empty array is a counterexample: the array is truthy, so no identifier
  is generated, and \<open>String\<close> turns it into the empty string; merging the result again
  finds an empty identifier and generates one.
\<close>

theorem loadState_not_idempotent:
  "map task_id (tasks (fst (mergeDefaults env0 None blob_array_id))) = [[]] \<and>
   map task_id (tasks (fst (mergeDefaults env1 None
      (to_blob (fst (mergeDefaults env0 None blob_array_id)))))) = [''id_77aa_18bcfe5a1d8''] \<and>
   fst (mergeDefaults env1 None (to_blob (fst (mergeDefaults env0 None blob_array_id))))
     \<noteq> fst (mergeDefaults env0 None blob_array_id)"
proof -
  let ?s1 = "fst (mergeDefaults env0 None blob_array_id)"
  let ?s2 = "fst (mergeDefaults env1 None (to_blob ?s1))"
  have one: "map task_id (tasks ?s1) = [[]]"
    by (simp add: tasks_array_id)
  have "tasks ?s2 = loadTasks env1 0 (map task_blob (tasks ?s1))"
    by (simp only: loaded_fields to_blob_fields)
  then have two: "map task_id (tasks ?s2) = [''id_77aa_18bcfe5a1d8'']"
    by (simp add: tasks_array_id task_blob_def uid_def env1_def)
  have "?s2 \<noteq> ?s1"
  proof
    assume "?s2 = ?s1"
    then have "map task_id (tasks ?s2) = map task_id (tasks ?s1)" by simp
    then show False by (simp only: one two) simp
  qed
  then show ?thesis using one two by blast
qed

theorem loadState_idempotent_witness:
  "list_all task_fields_ok (nullish_or (tasks_b blob_typed) []) \<and> now env0 \<noteq> 0 \<and>
   fst (mergeDefaults env1 None (to_blob (fst (mergeDefaults env0 None blob_typed))))
     = fst (mergeDefaults env0 None blob_typed) \<and>
   map task_id (tasks (fst (mergeDefaults env0 None blob_typed))) = [''id_1f3a_1700000000000''] \<and>
   worldView (ui (core (fst (mergeDefaults env0 None blob_typed)))) = ''garden'' \<and>
   theme (profile (core (fst (mergeDefaults env0 None blob_typed)))) = ''midnight'' \<and>
   stopwatchCapHours (profile (core (fst (mergeDefaults env0 None blob_typed)))) = 24 \<and>
   loadState env1 None (Json (to_blob (fst (mergeDefaults env0 None blob_typed))))
     = Inr (fst (mergeDefaults env0 None blob_typed), None) \<and>
   loadState env1 None (Json (to_blob (defaultStateFull env0))) = Inr (defaultStateFull env0, None) \<and>
   loadState env0 None Unparsable = Inr (defaultStateFull env0, None)"
proof -
  have ok: "list_all task_fields_ok (nullish_or (tasks_b blob_typed) [])"
    by (simp add: blob_typed_def blob_empty_def nullish_or_def)
  have n: "now env0 \<noteq> 0" by (simp add: env0_def)
  note th = loadState_idempotent [OF ok n, of env1 None None]
  have t: "map task_id (tasks (fst (mergeDefaults env0 None blob_typed))) = [''id_1f3a_1700000000000'']"
    by (simp add: loaded_fields blob_typed_def blob_empty_def nullish_or_def uid_def env0_def)
  have pb: "profile_b blob_typed = Some
         \<lparr> pb_name = Some ''Alice'', pb_weeklyGoalHours = Some 12, pb_theme = Some ''neon'',
           pb_lastYearViewed = None, pb_stopwatchCapOn = Some False,
           pb_stopwatchCapHours = Some 30, pb_sessionAmbient = None,
           pb_defaultRewardMode = Some ''garden'', pb_backgroundCustomData = Some ''data:x'' \<rparr>"
    "ui_b blob_typed = None"
    by (simp_all add: blob_typed_def blob_empty_def)
  have w: "worldView (ui (core (fst (mergeDefaults env0 None blob_typed)))) = ''garden''"
    by (simp add: loaded_fields loadCore_def loadWorldView_def pb Let_def fld_def sect_def
        nullish_or_def opt_str_def str_or_def normalizeRewardMode_def)
  have p: "theme (profile (core (fst (mergeDefaults env0 None blob_typed)))) = ''midnight''"
    "stopwatchCapHours (profile (core (fst (mergeDefaults env0 None blob_typed)))) = 24"
    by (simp_all add: loaded_fields loadCore_def loadProfile_def pb Let_def fld_def sect_def
        nullish_or_def str_or_def allowedThemes_def clamp_def)
  show ?thesis using th ok n t w p by blast
qed

end
